theory Spec2Isabelle
  imports Complex_Main
begin

section \<open>Numbers\<close>

text \<open>
  The engine computes with the TypeScript type \<^verbatim>\<open>number\<close>, the IEEE binary64 format.
  The inputs are taken to be finite and are values of type \<^typ>\<open>real\<close>; negative zero is
  outside the model. The minutes, weights, capacities and metrics of the planner are
  computed over \<^typ>\<open>real\<close>, without rounding and without overflow. The two places where the
  planner divides by a quantity that nothing guards against zero
  (\<^verbatim>\<open>taskMinutes / pomodoroMinutes\<close> and \<^verbatim>\<open>usedMinutes / maxUsableMinutes\<close>) produce a
  \<open>jsnum\<close>, which keeps the non-finite results of JavaScript's division apart from the
  finite ones.

  Two results of the engine depend on the rounding or on the overflow of binary64 and are
  computed with it (section \<open>Binary64 arithmetic\<close>): the priority of a task, where rounding
  decides the order of two tasks whose exact priorities are close, and the adherence score
  of the rolling-history calculator, where a sum of durations beyond the largest finite
  number is \<^verbatim>\<open>Infinity\<close> and \<^verbatim>\<open>Infinity / Infinity\<close> is \<^verbatim>\<open>NaN\<close>.
\<close>

datatype jsnum = Num real | PosInfinity | NegInfinity | NaN

definition js_div :: "real \<Rightarrow> real \<Rightarrow> jsnum" where
  "js_div a b =
     (if b = 0 then (if 0 < a then PosInfinity else if a < 0 then NegInfinity else NaN)
      else Num (a / b))"

fun js_ceil :: "jsnum \<Rightarrow> jsnum" where
  "js_ceil (Num x) = Num (of_int \<lceil>x\<rceil>)"
| "js_ceil PosInfinity = PosInfinity"
| "js_ceil NegInfinity = NegInfinity"
| "js_ceil NaN = NaN"

text \<open>\<^verbatim>\<open>a < b\<close> and \<^verbatim>\<open>a >= b\<close> for a finite \<open>a\<close>; both are false on NaN.\<close>

fun js_lt :: "real \<Rightarrow> jsnum \<Rightarrow> bool" where
  "js_lt a (Num b) = (a < b)"
| "js_lt a PosInfinity = True"
| "js_lt a NegInfinity = False"
| "js_lt a NaN = False"

fun js_ge :: "real \<Rightarrow> jsnum \<Rightarrow> bool" where
  "js_ge a (Num b) = (b \<le> a)"
| "js_ge a PosInfinity = False"
| "js_ge a NegInfinity = True"
| "js_ge a NaN = False"

text \<open>\<^verbatim>\<open>Math.round\<close> rounds halves upwards.\<close>

definition js_round :: "real \<Rightarrow> real" where
  "js_round x = of_int \<lfloor>x + 1 / 2\<rfloor>"

text \<open>The decimal digits of a counter, as a template literal prints them.\<close>

definition digit_char :: "nat \<Rightarrow> char" where
  "digit_char d =
     (if d = 0 then CHR ''0'' else if d = 1 then CHR ''1'' else if d = 2 then CHR ''2''
      else if d = 3 then CHR ''3'' else if d = 4 then CHR ''4'' else if d = 5 then CHR ''5''
      else if d = 6 then CHR ''6'' else if d = 7 then CHR ''7'' else if d = 8 then CHR ''8''
      else CHR ''9'')"

fun string_of_nat :: "nat \<Rightarrow> string" where
  "string_of_nat n =
     (if n < 10 then [digit_char n] else string_of_nat (n div 10) @ [digit_char (n mod 10)])"

declare string_of_nat.simps [simp del]

section \<open>Binary64 arithmetic\<close>

text \<open>
  Every arithmetic operation of binary64 returns the exact result rounded to the nearest
  number of the format, a tie going to the even significand. \<open>round_even\<close> rounds to the
  nearest integer in this way.
\<close>

definition round_even :: "real \<Rightarrow> int" where
  "round_even y =
     (let f = \<lfloor>y\<rfloor>; d = y - of_int f
      in if d < 1 / 2 then f else if 1 / 2 < d then f + 1 else if even f then f else f + 1)"

text \<open>
  The binade of a positive \<open>x\<close> is the exponent \<open>e\<close> with \<open>2 ^ e \<le> x < 2 ^ (e + 1)\<close>, and
  \<open>-1022\<close> for the subnormal numbers, those below \<open>2 ^ (-1022)\<close>. It is found by halving or
  doubling \<open>x\<close>; the counters bound the search by the exponent range of the format.
\<close>

fun exp_up :: "nat \<Rightarrow> real \<Rightarrow> int" where
  "exp_up n x = (if n = 0 \<or> x < 2 then 0 else 1 + exp_up (n - 1) (x / 2))"

fun exp_down :: "nat \<Rightarrow> real \<Rightarrow> int" where
  "exp_down n x = (if n = 0 \<or> 1 \<le> x then 0 else exp_down (n - 1) (2 * x) - 1)"

declare exp_up.simps [simp del] exp_down.simps [simp del]

definition binade :: "real \<Rightarrow> int" where
  "binade x = (if 1 \<le> x then exp_up 1024 x else exp_down 1022 x)"

text \<open>
  The significand has 53 bits, so that the numbers of the format in the binade of \<open>x\<close> are
  the multiples of \<open>ulp64 x\<close>; \<open>round64 x\<close> is the nearest of them.
\<close>

definition ulp64 :: "real \<Rightarrow> real" where
  "ulp64 x = 2 powi (binade \<bar>x\<bar> - 52)"

definition round64 :: "real \<Rightarrow> real" where
  "round64 x = (if x = 0 then 0 else ulp64 x * of_int (round_even (x / ulp64 x)))"

text \<open>
  The four operations on finite numbers with a finite result. A result beyond the largest
  finite number is outside these four functions; \<open>to_js\<close> below accounts for it.
\<close>

definition add64 :: "real \<Rightarrow> real \<Rightarrow> real" where
  "add64 x y = round64 (x + y)"

definition sub64 :: "real \<Rightarrow> real \<Rightarrow> real" where
  "sub64 x y = round64 (x - y)"

definition mul64 :: "real \<Rightarrow> real \<Rightarrow> real" where
  "mul64 x y = round64 (x * y)"

definition div64 :: "real \<Rightarrow> real \<Rightarrow> real" where
  "div64 x y = round64 (x / y)"

text \<open>
  The largest finite number is \<open>2 ^ 1024 - 2 ^ 971\<close>. An exact result of magnitude
  \<open>2 ^ 1024 - 2 ^ 970\<close> or more, half a unit in the last place beyond it, rounds to an
  infinity.
\<close>

definition overflow64 :: real where
  "overflow64 = 2 ^ 1024 - 2 ^ 970"

definition to_js :: "real \<Rightarrow> jsnum" where
  "to_js x =
     (if overflow64 \<le> x then PosInfinity
      else if x \<le> - overflow64 then NegInfinity
      else Num (round64 x))"

text \<open>\<^verbatim>\<open>x + y\<close>, \<^verbatim>\<open>x / y\<close> and \<^verbatim>\<open>Math.min(x, y)\<close> on all numbers.\<close>

fun js_add :: "jsnum \<Rightarrow> jsnum \<Rightarrow> jsnum" where
  "js_add (Num a) (Num b) = to_js (a + b)"
| "js_add NaN y = NaN"
| "js_add x NaN = NaN"
| "js_add PosInfinity NegInfinity = NaN"
| "js_add NegInfinity PosInfinity = NaN"
| "js_add PosInfinity y = PosInfinity"
| "js_add x PosInfinity = PosInfinity"
| "js_add NegInfinity y = NegInfinity"
| "js_add x NegInfinity = NegInfinity"

fun js_divide :: "jsnum \<Rightarrow> jsnum \<Rightarrow> jsnum" where
  "js_divide (Num a) (Num b) = (if b = 0 then js_div a b else to_js (a / b))"
| "js_divide NaN y = NaN"
| "js_divide x NaN = NaN"
| "js_divide (Num a) y = Num 0"
| "js_divide PosInfinity (Num b) = (if 0 \<le> b then PosInfinity else NegInfinity)"
| "js_divide NegInfinity (Num b) = (if 0 \<le> b then NegInfinity else PosInfinity)"
| "js_divide x y = NaN"

fun js_min :: "jsnum \<Rightarrow> jsnum \<Rightarrow> jsnum" where
  "js_min NaN y = NaN"
| "js_min x NaN = NaN"
| "js_min NegInfinity y = NegInfinity"
| "js_min x NegInfinity = NegInfinity"
| "js_min PosInfinity y = y"
| "js_min x PosInfinity = x"
| "js_min (Num a) (Num b) = Num (min a b)"

text \<open>\<^verbatim>\<open>x < c\<close> and \<^verbatim>\<open>x > c\<close> for a finite \<open>c\<close>; both are false on NaN.\<close>

fun js_less :: "jsnum \<Rightarrow> real \<Rightarrow> bool" where
  "js_less (Num a) c = (a < c)"
| "js_less NegInfinity c = True"
| "js_less x c = False"

fun js_greater :: "jsnum \<Rightarrow> real \<Rightarrow> bool" where
  "js_greater (Num a) c = (c < a)"
| "js_greater PosInfinity c = True"
| "js_greater x c = False"

text \<open>A number that is neither negative nor NaN.\<close>

fun nonneg_js :: "jsnum \<Rightarrow> bool" where
  "nonneg_js (Num a) = (0 \<le> a)"
| "nonneg_js PosInfinity = True"
| "nonneg_js x = False"

section \<open>Types\<close>

text \<open>
  Each object type of \<^verbatim>\<open>engine.ts\<close> is a record. Field names that several object types
  share carry a prefix naming their record (\<open>us_\<close>, \<open>ss_\<close>, \<open>cs_\<close>, \<open>tb_\<close>, \<open>tp_\<close>);
  \<^verbatim>\<open>number | null\<close> and optional fields are options.
\<close>

datatype TimeOfDay = dawn | morning | evening | night

datatype SlotType = unavailable | not_preferred

datatype DayStatus = on_track | behind | fatigued | overperforming

record UnavailableSlot =
  us_dayOfWeek :: real
  us_startMinutes :: real
  us_endMinutes :: real
  us_type :: SlotType

record UserPreferences =
  sleepTimeMinutes :: real
  wakeTimeMinutes :: real
  preferredActivityTime :: TimeOfDay
  maxConsecutivePomodoros :: real
  unavailableSlots :: "UnavailableSlot list"

record Task =
  task_id :: string
  task_name :: string
  estimatedHours :: real
  urgency :: real
  deadlineDayIndex :: "real option"

record ScheduledSession =
  ss_id :: string
  ss_taskId :: string
  ss_dayOfWeek :: real
  ss_startMinutes :: real
  ss_endMinutes :: real
  ss_sequenceNumber :: real

record CompletedSession =
  cs_taskId :: string
  cs_durationMinutes :: real
  cs_focusRating :: real
  cs_dayOfWeek :: real
  cs_timeOfDay :: TimeOfDay
  cs_sequenceNumber :: "real option"

record DailyMetrics =
  status :: DayStatus
  plannedMinutes :: real
  actualMinutes :: real
  adherenceScore :: real
  focusScore :: real
  adjustmentFactor :: real

record TaskPerformance =
  tp_taskId :: string
  tp_estimatedHours :: real
  tp_actualHours :: real
  tp_averageFocus :: real
  tp_efficiency :: real

record WeeklyMetrics =
  plannedHours :: real
  actualHours :: real
  estimationAccuracy :: real
  averageFocus :: real
  bestFocusTime :: "TimeOfDay option"
  worstFocusTime :: "TimeOfDay option"
  fatigueIndicator :: real
  taskPerformance :: "TaskPerformance list"

record TimeBlock =
  tb_dayOfWeek :: real
  tb_startMinutes :: real
  tb_endMinutes :: real
  isPreferred :: bool

record WeightedTimeBlock = TimeBlock +
  weight :: real

record ScheduleProposal =
  sessions :: "ScheduledSession list"
  totalPlannedHours :: real
  utilizationRate :: jsnum

record FocusProfile =
  timeOfDayScores :: "TimeOfDay \<Rightarrow> real"
  sampleCount :: nat

section \<open>Time utilities\<close>

definition getTimeOfDay :: "real \<Rightarrow> TimeOfDay" where
  "getTimeOfDay minutes =
     (if 240 \<le> minutes \<and> minutes < 720 then dawn
      else if 720 \<le> minutes \<and> minutes < 1020 then morning
      else if 1020 \<le> minutes \<and> minutes < 1260 then evening
      else night)"

text \<open>
  The walk over the sorted slots of \<^verbatim>\<open>calculateAvailableBlocks\<close>: the blocks pushed so far
  and the cursor \<^verbatim>\<open>currentStart\<close> are the loop's state.
\<close>

fun carve_slots ::
  "real \<Rightarrow> real \<Rightarrow> UnavailableSlot list \<Rightarrow> TimeBlock list \<times> real \<Rightarrow> TimeBlock list \<times> real"
where
  "carve_slots dayOfWeek minSessionMinutes [] (blocks, currentStart) = (blocks, currentStart)"
| "carve_slots dayOfWeek minSessionMinutes (slot # rest) (blocks, currentStart) =
     carve_slots dayOfWeek minSessionMinutes rest
       (if currentStart < us_startMinutes slot
           \<and> minSessionMinutes \<le> us_startMinutes slot - currentStart
        then blocks @ [\<lparr>tb_dayOfWeek = dayOfWeek, tb_startMinutes = currentStart,
                        tb_endMinutes = us_startMinutes slot,
                        isPreferred = (us_type slot \<noteq> not_preferred)\<rparr>]
        else blocks,
        max currentStart (us_endMinutes slot))"

definition calculateAvailableBlocks :: "real \<Rightarrow> UserPreferences \<Rightarrow> real \<Rightarrow> TimeBlock list" where
  "calculateAvailableBlocks dayOfWeek preferences minSessionMinutes =
     (let daySlots = filter (\<lambda>s. us_dayOfWeek s = dayOfWeek) (unavailableSlots preferences);
          sortedSlots = sort_key us_startMinutes daySlots;
          dayEnd = sleepTimeMinutes preferences;
          (blocks, currentStart) =
             carve_slots dayOfWeek minSessionMinutes sortedSlots
               ([], wakeTimeMinutes preferences)
      in if currentStart < dayEnd \<and> minSessionMinutes \<le> dayEnd - currentStart
         then blocks @ [\<lparr>tb_dayOfWeek = dayOfWeek, tb_startMinutes = currentStart,
                         tb_endMinutes = dayEnd, isPreferred = True\<rparr>]
         else blocks)"

section \<open>Focus profile and weighting\<close>

definition add_focus ::
  "CompletedSession \<Rightarrow> (TimeOfDay \<Rightarrow> real \<times> nat) \<Rightarrow> (TimeOfDay \<Rightarrow> real \<times> nat)" where
  "add_focus session scores =
     scores (cs_timeOfDay session :=
       (fst (scores (cs_timeOfDay session)) + cs_focusRating session,
        Suc (snd (scores (cs_timeOfDay session)))))"

definition focus_by_time :: "CompletedSession list \<Rightarrow> TimeOfDay \<Rightarrow> real \<times> nat" where
  "focus_by_time completedSessions = fold add_focus completedSessions (\<lambda>_. (0, 0))"

definition buildFocusProfile :: "CompletedSession list \<Rightarrow> FocusProfile" where
  "buildFocusProfile completedSessions =
     \<lparr>timeOfDayScores =
        (\<lambda>t. if 0 < snd (focus_by_time completedSessions t)
             then fst (focus_by_time completedSessions t)
                    / real (snd (focus_by_time completedSessions t))
             else 3),
      sampleCount = length completedSessions\<rparr>"

definition calculateBlockWeight ::
  "TimeBlock \<Rightarrow> FocusProfile \<Rightarrow> TimeOfDay option \<Rightarrow> real" where
  "calculateBlockWeight block focusProfile bestFocus =
     (let w1 = (if isPreferred block then 1 * 14 / 10 else 1 * 6 / 10);
          blockTime = getTimeOfDay (tb_startMinutes block);
          w2 = (if 5 \<le> sampleCount focusProfile
                then w1 * (7 / 10 + (timeOfDayScores focusProfile blockTime / 5) * (6 / 10))
                else w1)
      in if bestFocus = Some blockTime then w2 * (13 / 10) else w2)"

definition weightAndSortBlocks ::
  "TimeBlock list \<Rightarrow> FocusProfile \<Rightarrow> TimeOfDay option \<Rightarrow> WeightedTimeBlock list" where
  "weightAndSortBlocks blocks focusProfile bestFocus =
     sort_key (\<lambda>b. - weight b)
       (map (\<lambda>block. \<lparr>tb_dayOfWeek = tb_dayOfWeek block,
                      tb_startMinutes = tb_startMinutes block,
                      tb_endMinutes = tb_endMinutes block,
                      isPreferred = isPreferred block,
                      weight = calculateBlockWeight block focusProfile bestFocus\<rparr>) blocks)"

section \<open>Fatigue and adjustment\<close>

definition applyAdjustmentFactorToCapacity :: "real \<Rightarrow> DailyMetrics list \<Rightarrow> real \<Rightarrow> real" where
  "applyAdjustmentFactorToCapacity totalAvailableMinutes dailyMetrics fatigue =
     (let avgAdjustment =
            foldl (\<lambda>sum m. sum + adjustmentFactor m) 0 dailyMetrics
              / max (real (length dailyMetrics)) 1;
          capacityMultiplier =
            (if 3 / 10 < fatigue then avgAdjustment * (1 - fatigue * (3 / 10))
             else avgAdjustment);
          clamped = max (1 / 2) (min 1 capacityMultiplier);
          fatigueMargin = 3 / 4
      in totalAvailableMinutes * fatigueMargin * clamped)"

section \<open>Session break logic\<close>

record BreakCheck =
  bc_insert :: bool
  breakMinutes :: real

definition shouldInsertBreak :: "real \<Rightarrow> real \<Rightarrow> real \<Rightarrow> real \<Rightarrow> BreakCheck" where
  "shouldInsertBreak consecutive maxConsecutive blockRemainingMinutes pomodoroMinutes =
     (if consecutive < maxConsecutive then \<lparr>bc_insert = False, breakMinutes = 0\<rparr>
      else if js_round (pomodoroMinutes * (4 / 10)) \<le> blockRemainingMinutes
      then \<lparr>bc_insert = True, breakMinutes = js_round (pomodoroMinutes * (4 / 10))\<rparr>
      else \<lparr>bc_insert = False, breakMinutes = 0\<rparr>)"

section \<open>Task prioritization\<close>

text \<open>
  The priority is computed in binary64: each of its operations rounds. The score is taken
  to stay finite, which it does while urgency and estimate stay below \<open>10 ^ 300\<close> in
  magnitude and a future deadline is a day or more ahead.
\<close>

definition calculateTaskPriority :: "Task \<Rightarrow> real \<Rightarrow> real" where
  "calculateTaskPriority task currentDay =
     (let score = mul64 (urgency task) 100;
          score' =
            (case deadlineDayIndex task of
               None \<Rightarrow> score
             | Some deadline \<Rightarrow>
                 (let daysUntilDeadline = sub64 deadline currentDay
                  in if 0 < daysUntilDeadline
                     then add64 score (mul64 (div64 1 daysUntilDeadline) 500)
                     else add64 score 10000))
      in add64 score' (mul64 (estimatedHours task) 10))"

text \<open>
  \<^verbatim>\<open>Array.prototype.sort\<close> is stable. The comparator \<^verbatim>\<open>priority(b) - priority(a)\<close> is a
  difference of two finite numbers, which has the sign of the exact difference, so that the
  sort is the stable sort by descending priority.
\<close>

definition sortTasksByPriority :: "Task list \<Rightarrow> real \<Rightarrow> Task list" where
  "sortTasksByPriority tasks currentDay =
     sort_key (\<lambda>t. - calculateTaskPriority t currentDay) tasks"

section \<open>Daily metrics\<close>

text \<open>
  \<^verbatim>\<open>calculateDailyMetrics\<close> and \<^verbatim>\<open>calculateDailyMetricsForRolling\<close> classify the day and
  choose the adjustment factor with the same lines of code, and sum the same fields of the
  day's sessions; these shared parts are written once.
\<close>

definition classify_status :: "real \<Rightarrow> real \<Rightarrow> DayStatus" where
  "classify_status adherence focus =
     (if adherence < 1 / 2 \<or> focus < 4 / 10 then fatigued
      else if adherence < 3 / 4 then behind
      else if 11 / 10 < adherence then overperforming
      else on_track)"

definition adjustment_of :: "DayStatus \<Rightarrow> real \<Rightarrow> real" where
  "adjustment_of st focus =
     (if st = fatigued then 7 / 10
      else if st = behind \<and> 6 / 10 < focus then 9 / 10
      else 1)"

definition planned_minutes_of :: "real \<Rightarrow> ScheduledSession list \<Rightarrow> real" where
  "planned_minutes_of dayOfWeek scheduledSessions =
     foldl (\<lambda>sum s. sum + (ss_endMinutes s - ss_startMinutes s)) 0
       (filter (\<lambda>s. ss_dayOfWeek s = dayOfWeek) scheduledSessions)"

definition actual_minutes_of :: "real \<Rightarrow> CompletedSession list \<Rightarrow> real" where
  "actual_minutes_of dayOfWeek completedSessions =
     foldl (\<lambda>sum s. sum + cs_durationMinutes s) 0
       (filter (\<lambda>s. cs_dayOfWeek s = dayOfWeek) completedSessions)"

definition focus_sum_of :: "real \<Rightarrow> CompletedSession list \<Rightarrow> real" where
  "focus_sum_of dayOfWeek completedSessions =
     foldl (\<lambda>sum s. sum + cs_focusRating s) 0
       (filter (\<lambda>s. cs_dayOfWeek s = dayOfWeek) completedSessions)"

definition focus_count_of :: "real \<Rightarrow> CompletedSession list \<Rightarrow> nat" where
  "focus_count_of dayOfWeek completedSessions =
     length (filter (\<lambda>s. cs_dayOfWeek s = dayOfWeek) completedSessions)"

definition calculateDailyMetrics ::
  "real \<Rightarrow> ScheduledSession list \<Rightarrow> CompletedSession list \<Rightarrow> DailyMetrics" where
  "calculateDailyMetrics dayOfWeek scheduledSessions completedSessions =
     (let planned = planned_minutes_of dayOfWeek scheduledSessions;
          actual = actual_minutes_of dayOfWeek completedSessions;
          adherence = (if 0 < planned then actual / planned else 0);
          focusSum = focus_sum_of dayOfWeek completedSessions;
          focusCount = focus_count_of dayOfWeek completedSessions;
          focus = (if 0 < focusCount then focusSum / (real focusCount * 5) else 0);
          st = classify_status adherence focus
      in \<lparr>status = st, plannedMinutes = planned, actualMinutes = actual,
          adherenceScore = adherence, focusScore = focus,
          adjustmentFactor = adjustment_of st focus\<rparr>)"

definition calculateDailyMetricsForRolling ::
  "real \<Rightarrow> ScheduledSession list \<Rightarrow> CompletedSession list \<Rightarrow> DailyMetrics" where
  "calculateDailyMetricsForRolling dayOfWeek previousScheduledSessions completedSessions =
     (let actual = actual_minutes_of dayOfWeek completedSessions;
          planned0 = planned_minutes_of dayOfWeek previousScheduledSessions;
          planned = (if planned0 = 0 \<and> 0 < actual then actual else planned0);
          adherence = (if 0 < planned then min (actual / planned) (3 / 2) else 1);
          focusSum = focus_sum_of dayOfWeek completedSessions;
          focusCount = focus_count_of dayOfWeek completedSessions;
          focus = (if 0 < focusCount then focusSum / (real focusCount * 5) else 8 / 10);
          st = classify_status adherence focus
      in \<lparr>status = st, plannedMinutes = planned, actualMinutes = actual,
          adherenceScore = adherence, focusScore = focus,
          adjustmentFactor = adjustment_of st focus\<rparr>)"

text \<open>
  The rolling-history calculator in binary64. The sums round and overflow, so that every
  number the function returns but the adjustment factor may be an infinity or NaN. The
  literals \<^verbatim>\<open>0.8\<close>, \<^verbatim>\<open>0.4\<close>, \<^verbatim>\<open>1.1\<close>, \<^verbatim>\<open>0.7\<close>, \<^verbatim>\<open>0.6\<close> and \<^verbatim>\<open>0.9\<close> denote the nearest numbers of
  the format; \<^verbatim>\<open>0.5\<close>, \<^verbatim>\<open>0.75\<close> and \<^verbatim>\<open>1.5\<close> belong to it.
\<close>

record DailyMetrics64 =
  status64 :: DayStatus
  plannedMinutes64 :: jsnum
  actualMinutes64 :: jsnum
  adherenceScore64 :: jsnum
  focusScore64 :: jsnum
  adjustmentFactor64 :: real

definition planned_minutes64 :: "real \<Rightarrow> ScheduledSession list \<Rightarrow> jsnum" where
  "planned_minutes64 dayOfWeek scheduledSessions =
     foldl (\<lambda>sum s. js_add sum (to_js (ss_endMinutes s - ss_startMinutes s))) (Num 0)
       (filter (\<lambda>s. ss_dayOfWeek s = dayOfWeek) scheduledSessions)"

definition actual_minutes64 :: "real \<Rightarrow> CompletedSession list \<Rightarrow> jsnum" where
  "actual_minutes64 dayOfWeek completedSessions =
     foldl (\<lambda>sum s. js_add sum (Num (cs_durationMinutes s))) (Num 0)
       (filter (\<lambda>s. cs_dayOfWeek s = dayOfWeek) completedSessions)"

definition focus_sum64 :: "real \<Rightarrow> CompletedSession list \<Rightarrow> jsnum" where
  "focus_sum64 dayOfWeek completedSessions =
     foldl (\<lambda>sum s. js_add sum (Num (cs_focusRating s))) (Num 0)
       (filter (\<lambda>s. cs_dayOfWeek s = dayOfWeek) completedSessions)"

definition calculateDailyMetricsForRolling64 ::
  "real \<Rightarrow> ScheduledSession list \<Rightarrow> CompletedSession list \<Rightarrow> DailyMetrics64" where
  "calculateDailyMetricsForRolling64 dayOfWeek previousScheduledSessions completedSessions =
     (let actual = actual_minutes64 dayOfWeek completedSessions;
          planned0 = planned_minutes64 dayOfWeek previousScheduledSessions;
          planned = (if planned0 = Num 0 \<and> js_greater actual 0 then actual else planned0);
          adherence = (if js_greater planned 0
                       then js_min (js_divide actual planned) (Num (3 / 2))
                       else Num 1);
          focusSum = focus_sum64 dayOfWeek completedSessions;
          focusCount = focus_count_of dayOfWeek completedSessions;
          focus = (if 0 < focusCount then js_divide focusSum (to_js (real focusCount * 5))
                   else Num (round64 (8 / 10)));
          st = (if js_less adherence (1 / 2) \<or> js_less focus (round64 (4 / 10)) then fatigued
                else if js_less adherence (3 / 4) then behind
                else if js_greater adherence (round64 (11 / 10)) then overperforming
                else on_track);
          adjustment = (if st = fatigued then round64 (7 / 10)
                        else if st = behind \<and> js_greater focus (round64 (6 / 10))
                        then round64 (9 / 10)
                        else 1)
      in \<lparr>status64 = st, plannedMinutes64 = planned, actualMinutes64 = actual,
          adherenceScore64 = adherence, focusScore64 = focus,
          adjustmentFactor64 = adjustment\<rparr>)"

section \<open>Weekly metrics\<close>

text \<open>
  The loop over \<^verbatim>\<open>Object.entries(focusByTime)\<close> visits the four buckets in the order in
  which the object literal lists them. Its state is
  \<open>(bestFocusTime, worstFocusTime, maxAvg, minAvg)\<close>.
\<close>

definition focus_extremes_step ::
  "(TimeOfDay \<Rightarrow> real \<times> nat) \<Rightarrow> TimeOfDay
     \<Rightarrow> TimeOfDay option \<times> TimeOfDay option \<times> real \<times> real
     \<Rightarrow> TimeOfDay option \<times> TimeOfDay option \<times> real \<times> real" where
  "focus_extremes_step focusByTime t acc =
     (case acc of (best, worst, maxAvg, minAvg) \<Rightarrow>
        if 0 < snd (focusByTime t)
        then (let avg = fst (focusByTime t) / real (snd (focusByTime t))
              in (if maxAvg < avg then Some t else best,
                  if avg < minAvg then Some t else worst,
                  if maxAvg < avg then avg else maxAvg,
                  if avg < minAvg then avg else minAvg))
        else acc)"

definition focus_extremes ::
  "(TimeOfDay \<Rightarrow> real \<times> nat) \<Rightarrow> TimeOfDay option \<times> TimeOfDay option \<times> real \<times> real" where
  "focus_extremes focusByTime =
     fold (focus_extremes_step focusByTime) [dawn, morning, evening, night] (None, None, 0, 6)"

definition task_performance_of :: "CompletedSession list \<Rightarrow> Task \<Rightarrow> TaskPerformance" where
  "task_performance_of completedSessions task =
     (let taskSessions = filter (\<lambda>s. cs_taskId s = task_id task) completedSessions;
          hours = foldl (\<lambda>sum s. sum + cs_durationMinutes s / 60) 0 taskSessions;
          avgFocus =
            (if 0 < length taskSessions
             then foldl (\<lambda>sum s. sum + cs_focusRating s) 0 taskSessions
                    / real (length taskSessions)
             else 0);
          efficiency =
            (if 0 < estimatedHours task \<and> 0 < hours
             then (avgFocus / 5) * (estimatedHours task / hours) else 0)
      in \<lparr>tp_taskId = task_id task, tp_estimatedHours = estimatedHours task,
          tp_actualHours = hours, tp_averageFocus = avgFocus, tp_efficiency = efficiency\<rparr>)"

definition calculateWeeklyMetrics ::
  "Task list \<Rightarrow> ScheduledSession list \<Rightarrow> CompletedSession list \<Rightarrow> WeeklyMetrics" where
  "calculateWeeklyMetrics tasks scheduledSessions completedSessions =
     (let planned =
            foldl (\<lambda>sum s. sum + (ss_endMinutes s - ss_startMinutes s) / 60) 0 scheduledSessions;
          actual = foldl (\<lambda>sum s. sum + cs_durationMinutes s / 60) 0 completedSessions;
          accuracy = (if 0 < planned then min (actual / planned) 2 else 0);
          totalFocus = foldl (\<lambda>sum s. sum + cs_focusRating s) 0 completedSessions;
          avgFocus =
            (if 0 < length completedSessions
             then totalFocus / real (length completedSessions) else 0);
          extremes = focus_extremes (focus_by_time completedSessions);
          dailyAdherence =
            map (\<lambda>day. adherenceScore
                          (calculateDailyMetrics (real day) scheduledSessions completedSessions))
              [0..<7];
          avgAdherence = foldl (\<lambda>a b. a + b) 0 dailyAdherence / real (length dailyAdherence);
          fatigue = (if avgAdherence < 6 / 10 then 1 - avgAdherence else 0)
      in \<lparr>plannedHours = planned, actualHours = actual, estimationAccuracy = accuracy,
          averageFocus = avgFocus, bestFocusTime = fst extremes,
          worstFocusTime = fst (snd extremes), fatigueIndicator = fatigue,
          taskPerformance = map (task_performance_of completedSessions) tasks\<rparr>)"

section \<open>Schedule generation\<close>

text \<open>
  The mutable variables of \<^verbatim>\<open>generateProposedWeeklyScheduleWithHistory\<close>, threaded through
  its four nested loops: the session list, \<^verbatim>\<open>usedMinutes\<close>, the id counter and the
  \<^verbatim>\<open>Map\<close> of consecutive counts live for the whole call, \<^verbatim>\<open>sessionsScheduled\<close> is reset for
  every task, \<^verbatim>\<open>blockCursor\<close> and \<^verbatim>\<open>consecutiveCount\<close> for every block.
\<close>

record PackState =
  ps_sessions :: "ScheduledSession list"
  usedMinutes :: real
  sessionId :: nat
  taskConsecutiveCounts :: "string \<rightharpoonup> real"
  sessionsScheduled :: nat
  blockCursor :: real
  consecutiveCount :: real

text \<open>
  One turn of the \<^verbatim>\<open>while\<close> loop that fills a block: the loop's condition, the break
  check, the cursor moved past an inserted break, and the session pushed with the
  counters advanced.
\<close>

definition pack_cond :: "real \<Rightarrow> real \<Rightarrow> jsnum \<Rightarrow> WeightedTimeBlock \<Rightarrow> PackState \<Rightarrow> bool" where
  "pack_cond pomodoroMinutes maxUsableMinutes sessionsNeeded block s =
     (blockCursor s + pomodoroMinutes \<le> tb_endMinutes block
      \<and> js_lt (real (sessionsScheduled s)) sessionsNeeded
      \<and> usedMinutes s < maxUsableMinutes)"

definition break_check :: "UserPreferences \<Rightarrow> real \<Rightarrow> WeightedTimeBlock \<Rightarrow> PackState \<Rightarrow> BreakCheck" where
  "break_check preferences pomodoroMinutes block s =
     shouldInsertBreak (consecutiveCount s) (maxConsecutivePomodoros preferences)
       (tb_endMinutes block - blockCursor s) pomodoroMinutes"

definition take_break :: "BreakCheck \<Rightarrow> Task \<Rightarrow> PackState \<Rightarrow> PackState" where
  "take_break breakCheck task s =
     (if bc_insert breakCheck
      then s\<lparr>blockCursor := blockCursor s + breakMinutes breakCheck,
             consecutiveCount := 0,
             taskConsecutiveCounts := (taskConsecutiveCounts s)(task_id task \<mapsto> 0)\<rparr>
      else s)"

definition push_session :: "real \<Rightarrow> Task \<Rightarrow> nat \<Rightarrow> PackState \<Rightarrow> PackState" where
  "push_session pomodoroMinutes task day s =
     s\<lparr>ps_sessions := ps_sessions s @
          [\<lparr>ss_id = ''session_'' @ string_of_nat (sessionId s),
            ss_taskId = task_id task,
            ss_dayOfWeek = real day,
            ss_startMinutes = blockCursor s,
            ss_endMinutes = blockCursor s + pomodoroMinutes,
            ss_sequenceNumber = consecutiveCount s\<rparr>],
       sessionId := Suc (sessionId s),
       blockCursor := blockCursor s + pomodoroMinutes,
       sessionsScheduled := Suc (sessionsScheduled s),
       consecutiveCount := consecutiveCount s + 1,
       taskConsecutiveCounts := (taskConsecutiveCounts s)(task_id task \<mapsto> consecutiveCount s + 1),
       usedMinutes := usedMinutes s + pomodoroMinutes\<rparr>"

text \<open>
  The loop itself. With \<^verbatim>\<open>pomodoroMinutes = 0\<close> and a task of positive size nothing in
  its condition ever changes, so the loop is a partial function: \<open>None\<close> stands for a call
  that never returns.
\<close>

partial_function (option) pack_while ::
  "UserPreferences \<Rightarrow> real \<Rightarrow> real \<Rightarrow> Task \<Rightarrow> jsnum \<Rightarrow> nat \<Rightarrow> WeightedTimeBlock
     \<Rightarrow> PackState \<Rightarrow> PackState option"
where
  "pack_while preferences pomodoroMinutes maxUsableMinutes task sessionsNeeded day block s =
     (if pack_cond pomodoroMinutes maxUsableMinutes sessionsNeeded block s
      then
        (let breakCheck = break_check preferences pomodoroMinutes block s;
             s1 = take_break breakCheck task s
         in if bc_insert breakCheck \<and> tb_endMinutes block < blockCursor s1 + pomodoroMinutes
            then Some s1
            else pack_while preferences pomodoroMinutes maxUsableMinutes task sessionsNeeded
                   day block (push_session pomodoroMinutes task day s1))
      else Some s)"

declare pack_while.simps [code]

text \<open>The loop over the blocks of one day, with its two \<^verbatim>\<open>break\<close>s.\<close>

fun pack_blocks ::
  "UserPreferences \<Rightarrow> real \<Rightarrow> real \<Rightarrow> Task \<Rightarrow> jsnum \<Rightarrow> nat \<Rightarrow> WeightedTimeBlock list
     \<Rightarrow> PackState \<Rightarrow> PackState option"
where
  "pack_blocks preferences pomodoroMinutes maxUsableMinutes task sessionsNeeded day [] s = Some s"
| "pack_blocks preferences pomodoroMinutes maxUsableMinutes task sessionsNeeded day
     (block # rest) s =
     (if js_ge (real (sessionsScheduled s)) sessionsNeeded then Some s
      else if maxUsableMinutes \<le> usedMinutes s then Some s
      else
        (case pack_while preferences pomodoroMinutes maxUsableMinutes task sessionsNeeded
                day block
                (s\<lparr>blockCursor := tb_startMinutes block,
                   consecutiveCount :=
                     (case taskConsecutiveCounts s (task_id task) of
                        None \<Rightarrow> 0 | Some c \<Rightarrow> c)\<rparr>) of
           None \<Rightarrow> None
         | Some s' \<Rightarrow>
             pack_blocks preferences pomodoroMinutes maxUsableMinutes task sessionsNeeded day
               rest
               (s'\<lparr>taskConsecutiveCounts := (taskConsecutiveCounts s')(task_id task \<mapsto> 0)\<rparr>)))"

text \<open>The loop over the days; \<open>days\<close> pairs each day index with \<^verbatim>\<open>weekBlocks[day]\<close>.\<close>

fun pack_days ::
  "UserPreferences \<Rightarrow> real \<Rightarrow> real \<Rightarrow> Task \<Rightarrow> jsnum \<Rightarrow> (nat \<times> WeightedTimeBlock list) list
     \<Rightarrow> PackState \<Rightarrow> PackState option"
where
  "pack_days preferences pomodoroMinutes maxUsableMinutes task sessionsNeeded [] s = Some s"
| "pack_days preferences pomodoroMinutes maxUsableMinutes task sessionsNeeded
     ((day, blocks) # rest) s =
     (if js_lt (real (sessionsScheduled s)) sessionsNeeded
      then
        (case pack_blocks preferences pomodoroMinutes maxUsableMinutes task sessionsNeeded
                day blocks s of
           None \<Rightarrow> None
         | Some s' \<Rightarrow>
             pack_days preferences pomodoroMinutes maxUsableMinutes task sessionsNeeded rest s')
      else Some s)"

text \<open>The loop over the tasks in priority order.\<close>

fun pack_tasks ::
  "UserPreferences \<Rightarrow> real \<Rightarrow> real \<Rightarrow> (nat \<times> WeightedTimeBlock list) list \<Rightarrow> Task list
     \<Rightarrow> PackState \<Rightarrow> PackState option"
where
  "pack_tasks preferences pomodoroMinutes maxUsableMinutes days [] s = Some s"
| "pack_tasks preferences pomodoroMinutes maxUsableMinutes days (task # rest) s =
     (case pack_days preferences pomodoroMinutes maxUsableMinutes task
             (js_ceil (js_div (estimatedHours task * 60) pomodoroMinutes))
             days (s\<lparr>sessionsScheduled := 0\<rparr>) of
        None \<Rightarrow> None
      | Some s' \<Rightarrow> pack_tasks preferences pomodoroMinutes maxUsableMinutes days rest s')"

definition initial_state :: PackState where
  "initial_state =
     \<lparr>ps_sessions = [], usedMinutes = 0, sessionId = 0, taskConsecutiveCounts = Map.empty,
      sessionsScheduled = 0, blockCursor = 0, consecutiveCount = 0\<rparr>"

definition week_blocks ::
  "UserPreferences \<Rightarrow> real \<Rightarrow> FocusProfile \<Rightarrow> TimeOfDay option \<Rightarrow> WeightedTimeBlock list list"
where
  "week_blocks preferences pomodoroMinutes focusProfile bestFocus =
     map (\<lambda>day. weightAndSortBlocks
                  (calculateAvailableBlocks (real day) preferences pomodoroMinutes)
                  focusProfile bestFocus)
       [0..<7]"

definition total_available_minutes :: "WeightedTimeBlock list list \<Rightarrow> real" where
  "total_available_minutes weekBlocks =
     foldl (\<lambda>sum block. sum + (tb_endMinutes block - tb_startMinutes block)) 0
       (concat weekBlocks)"

text \<open>
  The values that \<^verbatim>\<open>generateProposedWeeklyScheduleWithHistory\<close> computes before it packs:
  \<^verbatim>\<open>weeklyMetrics\<close> (null without history), \<^verbatim>\<open>weekBlocks\<close> and \<^verbatim>\<open>maxUsableMinutes\<close>.
\<close>

definition history_metrics :: "Task list \<Rightarrow> CompletedSession list \<Rightarrow> WeeklyMetrics option" where
  "history_metrics tasks completedSessions =
     (if 0 < length completedSessions
      then Some (calculateWeeklyMetrics tasks [] completedSessions) else None)"

definition planned_week_blocks ::
  "Task list \<Rightarrow> UserPreferences \<Rightarrow> real \<Rightarrow> CompletedSession list \<Rightarrow> WeightedTimeBlock list list"
where
  "planned_week_blocks tasks preferences pomodoroMinutes completedSessions =
     week_blocks preferences pomodoroMinutes (buildFocusProfile completedSessions)
       (case history_metrics tasks completedSessions of
          None \<Rightarrow> None | Some wm \<Rightarrow> bestFocusTime wm)"

definition max_usable_minutes ::
  "Task list \<Rightarrow> UserPreferences \<Rightarrow> real \<Rightarrow> CompletedSession list \<Rightarrow> DailyMetrics list \<Rightarrow> real"
where
  "max_usable_minutes tasks preferences pomodoroMinutes completedSessions dailyMetrics =
     applyAdjustmentFactorToCapacity
       (total_available_minutes
          (planned_week_blocks tasks preferences pomodoroMinutes completedSessions))
       dailyMetrics
       (case history_metrics tasks completedSessions of
          None \<Rightarrow> 0 | Some wm \<Rightarrow> fatigueIndicator wm)"

definition generateProposedWeeklyScheduleWithHistory ::
  "Task list \<Rightarrow> UserPreferences \<Rightarrow> real \<Rightarrow> real \<Rightarrow> CompletedSession list
     \<Rightarrow> DailyMetrics list \<Rightarrow> ScheduleProposal option"
where
  "generateProposedWeeklyScheduleWithHistory tasks preferences currentDay pomodoroMinutes
     completedSessions dailyMetrics =
     (let sortedTasks = sortTasksByPriority tasks currentDay;
          weekBlocks = planned_week_blocks tasks preferences pomodoroMinutes completedSessions;
          maxUsableMinutes =
            max_usable_minutes tasks preferences pomodoroMinutes completedSessions dailyMetrics
      in case pack_tasks preferences pomodoroMinutes maxUsableMinutes
                (zip [0..<7] weekBlocks) sortedTasks initial_state of
           None \<Rightarrow> None
         | Some s \<Rightarrow>
             Some \<lparr>sessions = ps_sessions s,
                   totalPlannedHours = usedMinutes s / 60,
                   utilizationRate = js_div (usedMinutes s) maxUsableMinutes\<rparr>)"

definition generateProposedWeeklySchedule ::
  "Task list \<Rightarrow> UserPreferences \<Rightarrow> real \<Rightarrow> real \<Rightarrow> ScheduleProposal option" where
  "generateProposedWeeklySchedule tasks preferences currentDay pomodoroMinutes =
     generateProposedWeeklyScheduleWithHistory tasks preferences currentDay pomodoroMinutes
       [] []"

section \<open>Rolling planning\<close>

text \<open>
  \<^verbatim>\<open>taskProgress\<close> sums, for each task id, the hours of its completed sessions; a task
  without completed sessions has no entry and counts as zero hours. The set
  \<^verbatim>\<open>completedTaskIds\<close> and the field \<^verbatim>\<open>weeklyMetrics\<close> of the input are never read.
\<close>

definition task_progress :: "CompletedSession list \<Rightarrow> string \<rightharpoonup> real" where
  "task_progress completedSessions =
     fold (\<lambda>session progress.
             progress (cs_taskId session \<mapsto>
               (case progress (cs_taskId session) of None \<Rightarrow> 0 | Some h \<Rightarrow> h)
                 + cs_durationMinutes session / 60))
       completedSessions Map.empty"

definition adjusted_tasks :: "Task list \<Rightarrow> CompletedSession list \<Rightarrow> Task list" where
  "adjusted_tasks remainingTasks completedSessions =
     filter (\<lambda>task. 0 < estimatedHours task)
       (map (\<lambda>task. task\<lparr>estimatedHours :=
                 max 0 (estimatedHours task -
                   (case task_progress completedSessions (task_id task) of
                      None \<Rightarrow> 0 | Some h \<Rightarrow> h))\<rparr>)
          remainingTasks)"

record RollingPlanningInput =
  remainingTasks :: "Task list"
  rp_completedSessions :: "CompletedSession list"
  previousScheduledSessions :: "ScheduledSession list option"
  rp_preferences :: UserPreferences
  rp_currentDay :: real
  rp_pomodoroMinutes :: real
  rp_weeklyMetrics :: WeeklyMetrics

definition generateRollingPlan :: "RollingPlanningInput \<Rightarrow> ScheduleProposal option" where
  "generateRollingPlan input =
     (let previousSessions =
            (case previousScheduledSessions input of None \<Rightarrow> [] | Some ps \<Rightarrow> ps);
          dailyMetrics =
            map (\<lambda>day. calculateDailyMetricsForRolling (real day) previousSessions
                          (rp_completedSessions input))
              [0..<7]
      in generateProposedWeeklyScheduleWithHistory
           (adjusted_tasks (remainingTasks input) (rp_completedSessions input))
           (rp_preferences input) (rp_currentDay input) (rp_pomodoroMinutes input)
           (rp_completedSessions input) dailyMetrics)"

section \<open>The adapter\<close>

text \<open>
  \<^verbatim>\<open>studyAdapter.ts\<close>. The event store behind \<^verbatim>\<open>supabase\<close> is a parameter: it maps the
  user id and the event type of the query on the table \<^verbatim>\<open>events\<close> to the answer
  \<^verbatim>\<open>{ data, error }\<close>. A promise is modelled by the result it resolves to.
\<close>

record EventRow =
  payload :: CompletedSession

record QueryResult =
  qr_data :: "EventRow list option"
  qr_error :: "string option"

type_synonym EventStore = "string \<Rightarrow> string \<Rightarrow> QueryResult"

definition runStudyPlanning ::
  "Task list \<Rightarrow> CompletedSession list \<Rightarrow> UserPreferences \<Rightarrow> real \<Rightarrow> real
     \<Rightarrow> ScheduleProposal option" where
  "runStudyPlanning tasks completedSessions preferences currentDay pomodoroMinutes =
     generateProposedWeeklySchedule tasks preferences currentDay pomodoroMinutes"

definition loadCompletedStudySessions :: "EventStore \<Rightarrow> string \<Rightarrow> CompletedSession list" where
  "loadCompletedStudySessions store userId =
     (case qr_error (store userId ''study_completed_session'') of
        Some e \<Rightarrow> []
      | None \<Rightarrow>
          (case qr_data (store userId ''study_completed_session'') of
             None \<Rightarrow> []
           | Some rows \<Rightarrow> map payload rows))"

definition runStudyPlanningFromDB ::
  "EventStore \<Rightarrow> string \<Rightarrow> Task list \<Rightarrow> UserPreferences \<Rightarrow> real \<Rightarrow> real
     \<Rightarrow> ScheduleProposal option" where
  "runStudyPlanningFromDB store userId tasks preferences currentDay pomodoroMinutes =
     (let completedSessions = loadCompletedStudySessions store userId
      in generateProposedWeeklySchedule tasks preferences currentDay pomodoroMinutes)"

section \<open>Properties of schedules\<close>

text \<open>
  Two sessions conflict when they lie on the same day and their half-open intervals
  \<open>[startMinutes, endMinutes)\<close> meet; a schedule is conflict-free when no session conflicts
  with a later one of the list.
\<close>

definition sessions_overlap :: "ScheduledSession \<Rightarrow> ScheduledSession \<Rightarrow> bool" where
  "sessions_overlap a b =
     (ss_dayOfWeek a = ss_dayOfWeek b
      \<and> ss_startMinutes a < ss_endMinutes b \<and> ss_startMinutes b < ss_endMinutes a)"

fun conflict_free :: "ScheduledSession list \<Rightarrow> bool" where
  "conflict_free [] = True"
| "conflict_free (a # rest) = (list_all (\<lambda>b. \<not> sessions_overlap a b) rest \<and> conflict_free rest)"

definition within_waking_hours :: "UserPreferences \<Rightarrow> ScheduledSession \<Rightarrow> bool" where
  "within_waking_hours preferences a =
     (wakeTimeMinutes preferences \<le> ss_startMinutes a
      \<and> ss_endMinutes a \<le> sleepTimeMinutes preferences)"

section \<open>Evaluation\<close>

text \<open>
  Facts that unfold the planner on concrete inputs.
\<close>

lemma week_days: "[0..<7] = [0, 1, 2, 3, 4, 5, 6::nat]"
  by (simp add: upt_rec)

lemma replicate_week: "replicate 7 x = [x, x, x, x, x, x, x]"
  by (simp add: eval_nat_numeral)

lemmas planning_defs =
  generateProposedWeeklySchedule_def generateProposedWeeklyScheduleWithHistory_def
  max_usable_minutes_def planned_week_blocks_def history_metrics_def
  sortTasksByPriority_def calculateTaskPriority_def buildFocusProfile_def week_blocks_def
  weightAndSortBlocks_def calculateAvailableBlocks_def total_available_minutes_def
  applyAdjustmentFactorToCapacity_def initial_state_def js_div_def shouldInsertBreak_def
  js_round_def calculateBlockWeight_def getTimeOfDay_def focus_by_time_def
  pack_while.simps pack_cond_def break_check_def take_break_def push_session_def
  string_of_nat.simps digit_char_def Let_def week_days replicate_week

lemmas binary64_defs =
  round64_def ulp64_def binade_def round_even_def exp_up.simps exp_down.simps
  add64_def sub64_def mul64_def div64_def to_js_def overflow64_def

section \<open>Auxiliary facts\<close>

lemma foldl_add_nonneg:
  fixes f :: "'a \<Rightarrow> real"
  assumes "list_all (\<lambda>x. 0 \<le> f x) xs" and "0 \<le> acc"
  shows "0 \<le> foldl (\<lambda>sum x. sum + f x) acc xs"
  using assms by (induction xs arbitrary: acc) simp_all

lemma js_round_nonneg: "0 \<le> x \<Longrightarrow> 0 \<le> js_round x"
  by (simp add: js_round_def)

lemma break_minutes_nonneg:
  "0 \<le> p \<Longrightarrow> 0 \<le> breakMinutes (shouldInsertBreak c mx remaining p)"
  by (simp add: shouldInsertBreak_def js_round_nonneg)

lemma sorted_wrt_insort_key_sym:
  assumes "\<And>a b. R a b \<Longrightarrow> R b a"
  shows "sorted_wrt R (insort_key f x ys) = ((\<forall>y \<in> set ys. R x y) \<and> sorted_wrt R ys)"
  using assms by (induction ys) (auto simp: set_insort_key)

lemma sorted_wrt_sort_key_sym:
  assumes "\<And>a b. R a b \<Longrightarrow> R b a"
  shows "sorted_wrt R (sort_key f xs) = sorted_wrt R xs"
  by (induction xs) (simp_all add: sorted_wrt_insort_key_sym [of R, OF assms])

lemma distinct_map_sort_key: "distinct (map g (sort_key f xs)) = distinct (map g xs)"
proof -
  have ins: "distinct (map g (insort_key f x ys)) = (g x \<notin> g ` set ys \<and> distinct (map g ys))"
    for x ys
    by (induction ys) (auto simp: set_insort_key)
  show ?thesis by (induction xs) (simp_all add: ins)
qed

lemma conflict_free_sorted_wrt:
  "conflict_free xs = sorted_wrt (\<lambda>a b. \<not> sessions_overlap a b) xs"
  by (induction xs) (auto simp: list_all_iff)

section \<open>Rounding\<close>

text \<open>
  The rounding of binary64 moves a number by half a unit in the last place at most, keeps
  its sign, and keeps the powers of two.
\<close>

lemma round_even_of_int: "round_even (of_int m) = m"
  by (simp add: round_even_def)


lemma round_even_nonneg: "0 \<le> y \<Longrightarrow> 0 \<le> round_even y"
  unfolding round_even_def Let_def by auto





lemma ulp64_pos: "0 < ulp64 x"
  by (simp add: ulp64_def)




lemma round64_nonneg: "0 \<le> x \<Longrightarrow> 0 \<le> round64 x"
  using ulp64_pos [of x] round_even_nonneg [of "x / ulp64 x"]
  by (simp add: round64_def)


lemma exp_up_power2: "k \<le> n \<Longrightarrow> exp_up n (2 ^ k) = int k"
proof (induction k arbitrary: n)
  case 0
  then show ?case by (simp add: exp_up.simps)
next
  case (Suc k)
  then obtain m where n: "n = Suc m" by (cases n) auto
  with Suc.prems have "k \<le> m" by simp
  then have "exp_up m (2 ^ k) = int k" by (rule Suc.IH)
  moreover have "\<not> (2::real) * 2 ^ k < 2" by (simp add: not_less)
  ultimately show ?case using n by (simp add: exp_up.simps [of "Suc m"])
qed

lemma round64_power2:
  assumes "k \<le> 1024"
  shows "round64 (2 ^ k) = 2 ^ k"
proof -
  have b: "binade (2 ^ k) = int k"
    using assms exp_up_power2 [of k 1024] by (simp add: binade_def)
  have u: "ulp64 (2 ^ k) = 2 powi (int k - 52)"
    by (simp add: ulp64_def b)
  have q: "(2::real) ^ k / 2 powi (int k - 52) = of_int (2 ^ 52)"
    by (simp add: power_int_diff power_int_minus_divide)
  have "round_even (2 ^ k / 2 powi (int k - 52)) = 2 ^ 52"
    unfolding q by (rule round_even_of_int)
  then show ?thesis
    by (simp add: round64_def u power_int_diff)
qed



text \<open>Sums of numbers that are not negative are not negative, or overflow to \<open>PosInfinity\<close>.\<close>

lemma overflow64_pos: "0 < overflow64"
  by (simp add: overflow64_def)

lemma to_js_nonneg: "0 \<le> x \<Longrightarrow> nonneg_js (to_js x)"
  using overflow64_pos by (simp add: to_js_def round64_nonneg)

lemma js_add_nonneg: "nonneg_js x \<Longrightarrow> 0 \<le> d \<Longrightarrow> nonneg_js (js_add x (Num d))"
  by (cases x) (simp_all add: to_js_nonneg)

lemma foldl_js_add_nonneg:
  "nonneg_js acc \<Longrightarrow> list_all (\<lambda>s. 0 \<le> f s) xs
     \<Longrightarrow> nonneg_js (foldl (\<lambda>sum s. js_add sum (Num (f s))) acc xs)"
  by (induction xs arbitrary: acc) (simp_all add: js_add_nonneg)

lemma actual_minutes64_nonneg:
  assumes "list_all (\<lambda>s. 0 \<le> cs_durationMinutes s) completedSessions"
  shows "nonneg_js (actual_minutes64 dayOfWeek completedSessions)"
  unfolding actual_minutes64_def
  using assms by (intro foldl_js_add_nonneg) (simp_all add: list_all_iff)

lemma round64_one: "round64 1 = 1"
  by (simp add: round64_def ulp64_def binade_def round_even_def exp_up.simps Let_def)

lemma to_js_one: "to_js 1 = Num 1"
  by (simp add: to_js_def overflow64_def round64_one)

lemma js_min_cap:
  assumes "nonneg_js q"
  shows "\<exists>r. js_min q (Num (3 / 2)) = Num r \<and> 0 \<le> r \<and> r \<le> 3 / 2"
proof (cases q)
  case (Num a)
  with assms show ?thesis by (simp add: min_def)
next
  case PosInfinity
  have "js_min PosInfinity (Num (3 / 2)) = Num (3 / 2) \<and> (0::real) \<le> 3 / 2 \<and> (3 / 2 ::real) \<le> 3 / 2"
    by simp
  with PosInfinity show ?thesis by blast
qed (use assms in simp_all)

lemma js_divide_nonneg:
  assumes "0 \<le> a" and "js_greater p 0"
  shows "nonneg_js (js_divide (Num a) p)"
proof (cases p)
  case (Num b)
  with assms show ?thesis by (simp add: to_js_nonneg)
qed (use assms in simp_all)

section \<open>The capacity ceiling\<close>

text \<open>
  C3. With no daily metrics the sum of the adjustment factors is 0 and is divided by
  \<open>max 0 1 = 1\<close>, so the average is 0 and the clamp lifts it to 0.5, not to 1.0: for 100
  available minutes and no fatigue the ceiling is \<open>100 \<times> 0.75 \<times> 0.5 = 37.5\<close>, not 75, and
  the cold-start plan of a week of seven 840-minute days has the ceiling 2205, not 4410.
\<close>

theorem empty_metrics_halve_capacity:
  "applyAdjustmentFactorToCapacity 100 [] 0 = 100 * (3 / 4) * (1 / 2)
   \<and> applyAdjustmentFactorToCapacity 100 [] 0 \<noteq> 100 * (3 / 4)
   \<and> max_usable_minutes []
        \<lparr>sleepTimeMinutes = 1320, wakeTimeMinutes = 480, preferredActivityTime = morning,
         maxConsecutivePomodoros = 4, unavailableSlots = []\<rparr> 25 [] [] = 2205"
  by (simp add: planning_defs)

text \<open>
  What the capacity adjuster returns without daily metrics, for every amount of available
  minutes and every fatigue indicator up to 0.3: three eighths of the available minutes.
\<close>

theorem capacity_without_metrics:
  assumes "fatigue \<le> 3 / 10"
  shows "applyAdjustmentFactorToCapacity minutes [] fatigue = minutes * (3 / 8)"
  using assms by (simp add: applyAdjustmentFactorToCapacity_def)

text \<open>
  The rule above for one week of seven 840-minute days.
\<close>

theorem capacity_without_metrics_witness:
  "(0::real) \<le> 3 / 10 \<and> applyAdjustmentFactorToCapacity 5880 [] 0 = 2205"
proof -
  have h: "(0::real) \<le> 3 / 10" by simp
  from capacity_without_metrics [OF h, of 5880] h show ?thesis by simp
qed

lemma capacity_clamped:
  obtains c where "applyAdjustmentFactorToCapacity minutes dailyMetrics fatigue
                     = minutes * (3 / 4) * c" and "1 / 2 \<le> c" and "c \<le> 1"
proof -
  let ?avg = "foldl (\<lambda>sum m. sum + adjustmentFactor m) 0 dailyMetrics
                / max (real (length dailyMetrics)) 1"
  let ?x = "if 3 / 10 < fatigue then ?avg * (1 - fatigue * (3 / 10)) else ?avg"
  have "applyAdjustmentFactorToCapacity minutes dailyMetrics fatigue
          = minutes * (3 / 4) * max (1 / 2) (min 1 ?x)"
    unfolding applyAdjustmentFactorToCapacity_def Let_def ..
  moreover have "1 / 2 \<le> max (1 / 2) (min 1 ?x)" by (rule max.cobounded1)
  moreover have "max (1 / 2) (min 1 ?x) \<le> 1" by (rule max.boundedI) simp_all
  ultimately show ?thesis by (rule that)
qed

text \<open>
  For every list of daily metrics and every fatigue indicator the multiplier is clamped
  to \<open>[0.5, 1]\<close>: the ceiling lies between three eighths and three quarters of the
  available minutes.
\<close>

theorem capacity_bounds:
  assumes "0 \<le> minutes"
  shows "minutes * (3 / 8) \<le> applyAdjustmentFactorToCapacity minutes dailyMetrics fatigue
       \<and> applyAdjustmentFactorToCapacity minutes dailyMetrics fatigue \<le> minutes * (3 / 4)"
proof -
  obtain c where eq: "applyAdjustmentFactorToCapacity minutes dailyMetrics fatigue
                        = minutes * (3 / 4) * c"
    and c: "1 / 2 \<le> c" "c \<le> 1"
    by (rule capacity_clamped)
  from assms have m: "0 \<le> minutes * (3 / 4)" by simp
  from mult_left_mono [OF c(1) m] mult_left_mono [OF c(2) m]
  show ?thesis unfolding eq by simp
qed

text \<open>
  The bounds for 100 available minutes and no metrics.
\<close>

theorem capacity_bounds_witness:
  "(0::real) \<le> 100
   \<and> 100 * (3 / 8) \<le> applyAdjustmentFactorToCapacity 100 [] 0
   \<and> applyAdjustmentFactorToCapacity 100 [] 0 \<le> 100 * (3 / 4)"
proof -
  have h: "(0::real) \<le> 100" by simp
  from capacity_bounds [OF h, of "[]" 0] h show ?thesis by simp
qed

section \<open>Available blocks\<close>

lemma carve_slots_blocks:
  assumes "carve_slots d mn slots (blocks, cur) = (blocks', cur')"
    and "list_all (\<lambda>b. w \<le> tb_startMinutes b \<and> tb_startMinutes b < tb_endMinutes b
                      \<and> mn \<le> tb_endMinutes b - tb_startMinutes b \<and> tb_dayOfWeek b = d) blocks"
    and "w \<le> cur"
  shows "list_all (\<lambda>b. w \<le> tb_startMinutes b \<and> tb_startMinutes b < tb_endMinutes b
                      \<and> mn \<le> tb_endMinutes b - tb_startMinutes b \<and> tb_dayOfWeek b = d) blocks'
         \<and> w \<le> cur'"
  using assms
proof (induction slots arbitrary: blocks cur)
  case Nil
  then show ?case by simp
next
  case (Cons slot rest)
  show ?case
    by (rule Cons.IH [OF Cons.prems(1) [simplified]]) (use Cons.prems(2,3) in auto)
qed

text \<open>
  Whatever the preferences, every free block of a day starts at or after wake time, is
  not empty, is at least as long as the minimum session length and carries the day it was
  computed for.
\<close>

theorem available_blocks_well_formed:
  "list_all (\<lambda>b. wakeTimeMinutes preferences \<le> tb_startMinutes b
                \<and> tb_startMinutes b < tb_endMinutes b
                \<and> minSessionMinutes \<le> tb_endMinutes b - tb_startMinutes b
                \<and> tb_dayOfWeek b = dayOfWeek)
     (calculateAvailableBlocks dayOfWeek preferences minSessionMinutes)"
proof -
  let ?slots = "sort_key us_startMinutes
                  (filter (\<lambda>s. us_dayOfWeek s = dayOfWeek) (unavailableSlots preferences))"
  obtain blocks cur where
    c: "carve_slots dayOfWeek minSessionMinutes ?slots ([], wakeTimeMinutes preferences)
          = (blocks, cur)"
    by (cases "carve_slots dayOfWeek minSessionMinutes ?slots ([], wakeTimeMinutes preferences)")
  from carve_slots_blocks [OF c, of "wakeTimeMinutes preferences"]
  have "list_all (\<lambda>b. wakeTimeMinutes preferences \<le> tb_startMinutes b
                \<and> tb_startMinutes b < tb_endMinutes b
                \<and> minSessionMinutes \<le> tb_endMinutes b - tb_startMinutes b
                \<and> tb_dayOfWeek b = dayOfWeek) blocks"
    and "wakeTimeMinutes preferences \<le> cur"
    by simp_all
  then show ?thesis
    by (simp add: calculateAvailableBlocks_def Let_def c)
qed

lemma carve_slots_before:
  assumes "carve_slots d mn slots (blocks, cur) = (blocks', cur')"
    and "list_all (\<lambda>s. us_startMinutes s \<le> e) slots"
    and "list_all (\<lambda>b. tb_endMinutes b \<le> e) blocks"
  shows "list_all (\<lambda>b. tb_endMinutes b \<le> e) blocks'"
  using assms
proof (induction slots arbitrary: blocks cur)
  case Nil
  then show ?case by simp
next
  case (Cons slot rest)
  show ?case
    by (rule Cons.IH [OF Cons.prems(1) [simplified]]) (use Cons.prems(2,3) in auto)
qed

lemma available_blocks_before_sleep:
  assumes "list_all (\<lambda>s. us_startMinutes s \<le> sleepTimeMinutes preferences)
             (unavailableSlots preferences)"
  shows "list_all (\<lambda>b. tb_endMinutes b \<le> sleepTimeMinutes preferences)
           (calculateAvailableBlocks dayOfWeek preferences minSessionMinutes)"
proof -
  let ?slots = "sort_key us_startMinutes
                  (filter (\<lambda>s. us_dayOfWeek s = dayOfWeek) (unavailableSlots preferences))"
  obtain blocks cur where
    c: "carve_slots dayOfWeek minSessionMinutes ?slots ([], wakeTimeMinutes preferences)
          = (blocks, cur)"
    by (cases "carve_slots dayOfWeek minSessionMinutes ?slots ([], wakeTimeMinutes preferences)")
  have "list_all (\<lambda>s. us_startMinutes s \<le> sleepTimeMinutes preferences) ?slots"
    using assms by (simp add: list_all_iff)
  from carve_slots_before [OF c this]
  have "list_all (\<lambda>b. tb_endMinutes b \<le> sleepTimeMinutes preferences) blocks" by simp
  then show ?thesis
    by (simp add: calculateAvailableBlocks_def Let_def c)
qed

text \<open>
  The blocks of a day follow one another in time when no slot ends before it starts.
\<close>

lemma carve_slots_chain:
  assumes "carve_slots d mn slots (blocks, cur) = (blocks', cur')"
    and "list_all (\<lambda>s. us_startMinutes s \<le> us_endMinutes s) slots"
    and "sorted_wrt (\<lambda>a b. tb_endMinutes a \<le> tb_startMinutes b) blocks"
    and "list_all (\<lambda>b. tb_endMinutes b \<le> cur) blocks"
  shows "sorted_wrt (\<lambda>a b. tb_endMinutes a \<le> tb_startMinutes b) blocks'
         \<and> list_all (\<lambda>b. tb_endMinutes b \<le> cur') blocks'"
  using assms
proof (induction slots arbitrary: blocks cur)
  case Nil
  then show ?case by simp
next
  case (Cons slot rest)
  show ?case
    by (rule Cons.IH [OF Cons.prems(1) [simplified]])
       (use Cons.prems(2,3,4) in \<open>auto simp: sorted_wrt_append list_all_iff\<close>)
qed

lemma available_blocks_chain:
  assumes "list_all (\<lambda>s. us_startMinutes s \<le> us_endMinutes s) (unavailableSlots preferences)"
  shows "sorted_wrt (\<lambda>a b. tb_endMinutes a \<le> tb_startMinutes b)
           (calculateAvailableBlocks dayOfWeek preferences minSessionMinutes)"
proof -
  let ?slots = "sort_key us_startMinutes
                  (filter (\<lambda>s. us_dayOfWeek s = dayOfWeek) (unavailableSlots preferences))"
  obtain blocks cur where
    c: "carve_slots dayOfWeek minSessionMinutes ?slots ([], wakeTimeMinutes preferences)
          = (blocks, cur)"
    by (cases "carve_slots dayOfWeek minSessionMinutes ?slots ([], wakeTimeMinutes preferences)")
  have "list_all (\<lambda>s. us_startMinutes s \<le> us_endMinutes s) ?slots"
    using assms by (simp add: list_all_iff)
  from carve_slots_chain [OF c this]
  have "sorted_wrt (\<lambda>a b. tb_endMinutes a \<le> tb_startMinutes b) blocks"
    and "list_all (\<lambda>b. tb_endMinutes b \<le> cur) blocks" by simp_all
  then show ?thesis
    by (auto simp: calculateAvailableBlocks_def Let_def c sorted_wrt_append list_all_iff)
qed

lemma weighted_blocks_apart:
  assumes "list_all (\<lambda>s. us_startMinutes s \<le> us_endMinutes s) (unavailableSlots preferences)"
  shows "sorted_wrt (\<lambda>a b. tb_endMinutes a \<le> tb_startMinutes b \<or> tb_endMinutes b \<le> tb_startMinutes a)
           (weightAndSortBlocks (calculateAvailableBlocks dayOfWeek preferences mn) fp best)"
proof -
  let ?R = "\<lambda>a b :: WeightedTimeBlock.
              tb_endMinutes a \<le> tb_startMinutes b \<or> tb_endMinutes b \<le> tb_startMinutes a"
  let ?w = "\<lambda>block. \<lparr>tb_dayOfWeek = tb_dayOfWeek block,
                      tb_startMinutes = tb_startMinutes block,
                      tb_endMinutes = tb_endMinutes block,
                      isPreferred = isPreferred block,
                      weight = calculateBlockWeight block fp best\<rparr>"
  have sym: "\<And>a b. ?R a b \<Longrightarrow> ?R b a" by auto
  have "sorted_wrt (\<lambda>a b. tb_endMinutes a \<le> tb_startMinutes b \<or> tb_endMinutes b \<le> tb_startMinutes a)
          (calculateAvailableBlocks dayOfWeek preferences mn)"
    by (rule sorted_wrt_mono_rel [OF _ available_blocks_chain [OF assms]]) simp
  then have "sorted_wrt ?R (map ?w (calculateAvailableBlocks dayOfWeek preferences mn))"
    by (simp add: sorted_wrt_map)
  then have "sorted_wrt ?R
               (sort_key (\<lambda>b. - weight b)
                  (map ?w (calculateAvailableBlocks dayOfWeek preferences mn)))"
    by (simp only: sorted_wrt_sort_key_sym [of ?R, OF sym])
  then show ?thesis
    unfolding weightAndSortBlocks_def .
qed

lemma weighted_block_source:
  assumes "b \<in> set (weightAndSortBlocks blocks fp best)"
  shows "\<exists>b0 \<in> set blocks. tb_startMinutes b = tb_startMinutes b0
            \<and> tb_endMinutes b = tb_endMinutes b0 \<and> tb_dayOfWeek b = tb_dayOfWeek b0"
  using assms by (auto simp: weightAndSortBlocks_def)

lemma zip_week_blocks:
  assumes "(day, blocks) \<in> set (zip [0..<7] (week_blocks prefs p fp best))"
  shows "day < 7 \<and> blocks = weightAndSortBlocks (calculateAvailableBlocks (real day) prefs p) fp best"
proof -
  have "zip [0..<7] (week_blocks prefs p fp best)
          = map (\<lambda>d. (d, weightAndSortBlocks (calculateAvailableBlocks (real d) prefs p) fp best))
              [0..<7]"
    unfolding week_blocks_def by (simp add: zip_map2 zip_same_conv_map)
  with assms show ?thesis by auto
qed

lemma week_block_source:
  assumes "(day, blocks) \<in> set (zip [0..<7] (planned_week_blocks tasks prefs p cs))"
    and "block \<in> set blocks"
  shows "day < 7 \<and> (\<exists>b0 \<in> set (calculateAvailableBlocks (real day) prefs p).
            tb_startMinutes block = tb_startMinutes b0 \<and> tb_endMinutes block = tb_endMinutes b0)"
proof -
  from assms(1) have d: "day < 7"
    and b: "blocks = weightAndSortBlocks (calculateAvailableBlocks (real day) prefs p)
              (buildFocusProfile cs)
              (case history_metrics tasks cs of None \<Rightarrow> None | Some wm \<Rightarrow> bestFocusTime wm)"
    unfolding planned_week_blocks_def by (auto dest: zip_week_blocks)
  from weighted_block_source [OF assms(2) [unfolded b]] d show ?thesis by blast
qed

lemma total_available_nonneg:
  "0 \<le> total_available_minutes (planned_week_blocks tasks prefs p cs)"
proof -
  have "0 \<le> tb_endMinutes b - tb_startMinutes b"
    if "b \<in> set (concat (planned_week_blocks tasks prefs p cs))" for b
  proof -
    from that obtain d where
      "b \<in> set (weightAndSortBlocks (calculateAvailableBlocks (real d) prefs p)
                  (buildFocusProfile cs)
                  (case history_metrics tasks cs of None \<Rightarrow> None | Some wm \<Rightarrow> bestFocusTime wm))"
      by (auto simp: planned_week_blocks_def week_blocks_def)
    from weighted_block_source [OF this] obtain b0 where
      b0: "b0 \<in> set (calculateAvailableBlocks (real d) prefs p)"
      "tb_startMinutes b = tb_startMinutes b0" "tb_endMinutes b = tb_endMinutes b0"
      by blast
    from available_blocks_well_formed [of prefs p "real d"] b0(1)
    have "tb_startMinutes b0 < tb_endMinutes b0" by (auto simp: list_all_iff)
    with b0 show ?thesis by simp
  qed
  then have "list_all (\<lambda>b. 0 \<le> tb_endMinutes b - tb_startMinutes b)
               (concat (planned_week_blocks tasks prefs p cs))"
    unfolding list_all_iff by blast
  then show ?thesis
    unfolding total_available_minutes_def by (rule foldl_add_nonneg) simp
qed

lemma capacity_nonneg:
  assumes "0 \<le> minutes"
  shows "0 \<le> applyAdjustmentFactorToCapacity minutes dms fatigue"
  using assms by (simp add: applyAdjustmentFactorToCapacity_def Let_def max_def)

lemma max_usable_nonneg: "0 \<le> max_usable_minutes tasks prefs p cs dms"
  unfolding max_usable_minutes_def by (rule capacity_nonneg) (rule total_available_nonneg)

section \<open>The loops of the packer\<close>

text \<open>
  An invariant rule for the \<^verbatim>\<open>while\<close> loop: what holds before the loop, survives an
  inserted break and survives a pushed session holds for every state the loop returns.
\<close>

lemma pack_while_rule:
  assumes run: "pack_while prefs p m task needed day block s = Some s'"
    and init: "I s"
    and brk: "\<And>t. I t \<Longrightarrow> pack_cond p m needed block t
               \<Longrightarrow> I (take_break (break_check prefs p block t) task t)"
    and push: "\<And>t. I (take_break (break_check prefs p block t) task t)
               \<Longrightarrow> pack_cond p m needed block t
               \<Longrightarrow> \<not> (bc_insert (break_check prefs p block t)
                      \<and> tb_endMinutes block
                          < blockCursor (take_break (break_check prefs p block t) task t) + p)
               \<Longrightarrow> I (push_session p task day (take_break (break_check prefs p block t) task t))"
  shows "I s'"
proof -
  let ?P = "\<lambda>a b c d e f g x y.
      a = prefs \<and> b = p \<and> c = m \<and> d = task \<and> e = needed \<and> f = day \<and> g = block \<and> I x \<longrightarrow> I y"
  have "?P prefs p m task needed day block s s'"
  proof (rule pack_while.raw_induct [where P = ?P], goal_cases)
    case (1 pw a b c d e f g x y)
    show ?case
    proof (intro impI, elim conjE)
      assume eq: "a = prefs" "b = p" "c = m" "d = task" "e = needed" "f = day" "g = block"
        and ix: "I x"
      show "I y"
      proof (cases "pack_cond p m needed block x")
        case False
        with 1(2) eq ix show ?thesis by simp
      next
        case True
        let ?bc = "break_check prefs p block x"
        let ?x1 = "take_break ?bc task x"
        have i1: "I ?x1" using brk [OF ix True] .
        show ?thesis
        proof (cases "bc_insert ?bc \<and> tb_endMinutes block < blockCursor ?x1 + p")
          case True
          with 1(2) eq \<open>pack_cond p m needed block x\<close> have "y = ?x1"
            by (simp add: Let_def)
          with i1 show ?thesis by simp
        next
          case False
          with 1(2) eq \<open>pack_cond p m needed block x\<close>
          have r: "pw prefs p m task needed day block (push_session p task day ?x1) = Some y"
            by (simp add: Let_def)
          have "I (push_session p task day ?x1)"
            using push [OF i1 True False] .
          with 1(1) [OF r] show ?thesis by simp
        qed
      qed
    qed
  next
    case 2
    show ?case by (rule run)
  qed
  with init show ?thesis by simp
qed

lemma sessions_take_break [simp]: "ps_sessions (take_break bc task s) = ps_sessions s"
  by (simp add: take_break_def)

lemma take_break_fields [simp]:
  "usedMinutes (take_break bc task s) = usedMinutes s"
  "sessionsScheduled (take_break bc task s) = sessionsScheduled s"
  "sessionId (take_break bc task s) = sessionId s"
  by (simp_all add: take_break_def)

lemma take_break_cursor:
  "blockCursor (take_break bc task s)
     = (if bc_insert bc then blockCursor s + breakMinutes bc else blockCursor s)"
  by (simp add: take_break_def)




text \<open>
  A property \<open>G\<close> of the session list and the used minutes that every pushed session
  preserves holds when the packer returns. A session is pushed for a task of the list,
  into a block of the week, with the cursor inside the block and the used minutes below
  the ceiling.
\<close>

lemma pack_while_sessions_rule:
  assumes run: "pack_while prefs p m task needed day block s = Some s'"
    and p: "0 \<le> p"
    and init: "G (ps_sessions s) (usedMinutes s)" "tb_startMinutes block \<le> blockCursor s"
    and step: "\<And>t. G (ps_sessions t) (usedMinutes t) \<Longrightarrow> tb_startMinutes block \<le> blockCursor t
               \<Longrightarrow> blockCursor t + p \<le> tb_endMinutes block \<Longrightarrow> usedMinutes t < m
               \<Longrightarrow> G (ps_sessions (push_session p task day t))
                     (usedMinutes (push_session p task day t))"
  shows "G (ps_sessions s') (usedMinutes s')"
proof -
  let ?I = "\<lambda>t. G (ps_sessions t) (usedMinutes t) \<and> tb_startMinutes block \<le> blockCursor t"
  have "?I s'"
  proof (rule pack_while_rule [OF run, where I = ?I], goal_cases)
    case 1
    from init show ?case by simp
  next
    case (2 t)
    have "0 \<le> breakMinutes (break_check prefs p block t)"
      unfolding break_check_def using p by (rule break_minutes_nonneg)
    with 2 show ?case by (simp add: take_break_cursor)
  next
    case (3 t)
    let ?t1 = "take_break (break_check prefs p block t) task t"
    have fit: "blockCursor ?t1 + p \<le> tb_endMinutes block"
      using 3(2,3) by (auto simp: take_break_cursor pack_cond_def)
    have used: "usedMinutes ?t1 < m"
      using 3(2) by (simp add: pack_cond_def)
    from 3(1) have g: "G (ps_sessions ?t1) (usedMinutes ?t1)"
      and c: "tb_startMinutes block \<le> blockCursor ?t1" by simp_all
    have "G (ps_sessions (push_session p task day ?t1)) (usedMinutes (push_session p task day ?t1))"
      by (rule step [OF g c fit used])
    moreover have "tb_startMinutes block \<le> blockCursor (push_session p task day ?t1)"
      using c p by (simp add: push_session_def)
    ultimately show ?case by simp
  qed
  then show ?thesis by simp
qed

lemma pack_blocks_sessions_rule:
  assumes run: "pack_blocks prefs p m task needed day blocks s = Some s'"
    and p: "0 \<le> p"
    and init: "G (ps_sessions s) (usedMinutes s)"
    and step: "\<And>t block. block \<in> set blocks \<Longrightarrow> G (ps_sessions t) (usedMinutes t)
               \<Longrightarrow> tb_startMinutes block \<le> blockCursor t
               \<Longrightarrow> blockCursor t + p \<le> tb_endMinutes block \<Longrightarrow> usedMinutes t < m
               \<Longrightarrow> G (ps_sessions (push_session p task day t))
                     (usedMinutes (push_session p task day t))"
  shows "G (ps_sessions s') (usedMinutes s')"
  using run init step
proof (induction blocks arbitrary: s)
  case Nil
  then show ?case by simp
next
  case (Cons block rest)
  show ?case
  proof (cases "js_ge (real (sessionsScheduled s)) needed \<or> m \<le> usedMinutes s")
    case True
    with Cons.prems(1,2) show ?thesis by (auto split: if_splits)
  next
    case False
    let ?s0 = "s\<lparr>blockCursor := tb_startMinutes block,
                  consecutiveCount :=
                    (case taskConsecutiveCounts s (task_id task) of None \<Rightarrow> 0 | Some c \<Rightarrow> c)\<rparr>"
    from False Cons.prems(1) obtain t where
      w: "pack_while prefs p m task needed day block ?s0 = Some t"
      and r: "pack_blocks prefs p m task needed day rest
                (t\<lparr>taskConsecutiveCounts := (taskConsecutiveCounts t)(task_id task \<mapsto> 0)\<rparr>) = Some s'"
      by (auto split: option.splits)
    have "G (ps_sessions t) (usedMinutes t)"
    proof (rule pack_while_sessions_rule [where G = G, OF w p])
      show "G (ps_sessions ?s0) (usedMinutes ?s0)" using Cons.prems(2) by simp
      show "tb_startMinutes block \<le> blockCursor ?s0" by simp
    next
      fix u :: PackState
      assume "G (ps_sessions u) (usedMinutes u)" "tb_startMinutes block \<le> blockCursor u"
        "blockCursor u + p \<le> tb_endMinutes block" "usedMinutes u < m"
      then show "G (ps_sessions (push_session p task day u)) (usedMinutes (push_session p task day u))"
        by (intro Cons.prems(3)) simp_all
    qed
    then have g: "G (ps_sessions (t\<lparr>taskConsecutiveCounts := (taskConsecutiveCounts t)(task_id task \<mapsto> 0)\<rparr>))
                    (usedMinutes (t\<lparr>taskConsecutiveCounts := (taskConsecutiveCounts t)(task_id task \<mapsto> 0)\<rparr>))"
      by simp
    show ?thesis
      by (rule Cons.IH [OF r g]) (rule Cons.prems(3), simp_all)
  qed
qed

lemma pack_days_sessions_rule:
  assumes run: "pack_days prefs p m task needed days s = Some s'"
    and p: "0 \<le> p"
    and init: "G (ps_sessions s) (usedMinutes s)"
    and step: "\<And>t day blocks block. (day, blocks) \<in> set days \<Longrightarrow> block \<in> set blocks
               \<Longrightarrow> G (ps_sessions t) (usedMinutes t)
               \<Longrightarrow> tb_startMinutes block \<le> blockCursor t
               \<Longrightarrow> blockCursor t + p \<le> tb_endMinutes block \<Longrightarrow> usedMinutes t < m
               \<Longrightarrow> G (ps_sessions (push_session p task day t))
                     (usedMinutes (push_session p task day t))"
  shows "G (ps_sessions s') (usedMinutes s')"
  using run init step
proof (induction days arbitrary: s)
  case Nil
  then show ?case by simp
next
  case (Cons d rest)
  obtain day blocks where d: "d = (day, blocks)" by (cases d)
  show ?case
  proof (cases "js_lt (real (sessionsScheduled s)) needed")
    case False
    with Cons.prems(1,2) d show ?thesis by simp
  next
    case True
    with Cons.prems(1) d obtain t where
      b: "pack_blocks prefs p m task needed day blocks s = Some t"
      and r: "pack_days prefs p m task needed rest t = Some s'"
      by (auto split: option.splits)
    have g: "G (ps_sessions t) (usedMinutes t)"
      by (rule pack_blocks_sessions_rule [where G = G, OF b p Cons.prems(2)])
         (rule Cons.prems(3) [of day blocks], simp_all add: d)
    show ?thesis
      by (rule Cons.IH [OF r g]) (rule Cons.prems(3), simp_all)
  qed
qed

lemma pack_tasks_sessions_rule:
  assumes run: "pack_tasks prefs p m days tasks s = Some s'"
    and p: "0 \<le> p"
    and init: "G (ps_sessions s) (usedMinutes s)"
    and step: "\<And>t task day blocks block. task \<in> set tasks \<Longrightarrow> (day, blocks) \<in> set days
               \<Longrightarrow> block \<in> set blocks
               \<Longrightarrow> G (ps_sessions t) (usedMinutes t)
               \<Longrightarrow> tb_startMinutes block \<le> blockCursor t
               \<Longrightarrow> blockCursor t + p \<le> tb_endMinutes block \<Longrightarrow> usedMinutes t < m
               \<Longrightarrow> G (ps_sessions (push_session p task day t))
                     (usedMinutes (push_session p task day t))"
  shows "G (ps_sessions s') (usedMinutes s')"
  using run init step
proof (induction tasks arbitrary: s)
  case Nil
  then show ?case by simp
next
  case (Cons task rest)
  from Cons.prems(1) obtain t where
    d: "pack_days prefs p m task (js_ceil (js_div (estimatedHours task * 60) p)) days
          (s\<lparr>sessionsScheduled := 0\<rparr>) = Some t"
    and r: "pack_tasks prefs p m days rest t = Some s'"
    by (auto split: option.splits)
  have g0: "G (ps_sessions (s\<lparr>sessionsScheduled := 0\<rparr>)) (usedMinutes (s\<lparr>sessionsScheduled := 0\<rparr>))"
    using Cons.prems(2) by simp
  have g: "G (ps_sessions t) (usedMinutes t)"
    by (rule pack_days_sessions_rule [where G = G, OF d p g0]) (rule Cons.prems(3) [of task], simp_all)
  show ?case
    by (rule Cons.IH [OF r g]) (rule Cons.prems(3), simp_all)
qed

lemma generate_SomeD:
  assumes "generateProposedWeeklyScheduleWithHistory tasks prefs cd p cs dms = Some proposal"
  obtains s where
    "pack_tasks prefs p (max_usable_minutes tasks prefs p cs dms)
       (zip [0..<7] (planned_week_blocks tasks prefs p cs))
       (sortTasksByPriority tasks cd) initial_state = Some s"
    and "sessions proposal = ps_sessions s"
    and "totalPlannedHours proposal = usedMinutes s / 60"
    and "utilizationRate proposal
           = js_div (usedMinutes s) (max_usable_minutes tasks prefs p cs dms)"
  using assms
  by (auto simp: generateProposedWeeklyScheduleWithHistory_def Let_def split: option.splits)

section \<open>Termination\<close>

text \<open>
  The \<^verbatim>\<open>while\<close> loop returns whenever the number of sessions needed is not
  \<open>+Infinity\<close>: every turn schedules one more session.
\<close>

lemma pack_while_returns:
  assumes "needed \<noteq> PosInfinity"
  shows "\<exists>s'. pack_while prefs p m task needed day block s = Some s'"
proof (cases needed)
  case (Num n)
  show ?thesis
    unfolding Num
  proof (induction "nat (\<lceil>n\<rceil> - int (sessionsScheduled s))" arbitrary: s rule: less_induct)
    case less
    show ?case
    proof (cases "pack_cond p m (Num n) block s")
      case False
      then show ?thesis by (subst pack_while.simps) simp
    next
      case True
      let ?bc = "break_check prefs p block s"
      let ?s1 = "take_break ?bc task s"
      show ?thesis
      proof (cases "bc_insert ?bc \<and> tb_endMinutes block < blockCursor ?s1 + p")
        case exit: True
        with True show ?thesis by (subst pack_while.simps) (simp add: Let_def)
      next
        case False
        from True have "real (sessionsScheduled s) < n" by (simp add: pack_cond_def)
        then have "int (sessionsScheduled s) < \<lceil>n\<rceil>" by (simp add: less_ceiling_iff)
        then have "nat (\<lceil>n\<rceil> - int (sessionsScheduled (push_session p task day ?s1)))
                     < nat (\<lceil>n\<rceil> - int (sessionsScheduled s))"
          by (simp add: push_session_def)
        from less [OF this] obtain s' where
          "pack_while prefs p m task (Num n) day block (push_session p task day ?s1) = Some s'"
          by blast
        with True False show ?thesis by (subst pack_while.simps) (simp add: Let_def)
      qed
    qed
  qed
next
  case PosInfinity
  with assms show ?thesis by simp
next
  case NegInfinity
  then show ?thesis by (subst pack_while.simps) (simp add: pack_cond_def)
next
  case NaN
  then show ?thesis by (subst pack_while.simps) (simp add: pack_cond_def)
qed

lemma pack_blocks_returns:
  assumes "needed \<noteq> PosInfinity"
  shows "\<exists>s'. pack_blocks prefs p m task needed day blocks s = Some s'"
proof (induction blocks arbitrary: s)
  case Nil
  show ?case by simp
next
  case (Cons block rest)
  let ?s0 = "s\<lparr>blockCursor := tb_startMinutes block,
                consecutiveCount :=
                  (case taskConsecutiveCounts s (task_id task) of None \<Rightarrow> 0 | Some c \<Rightarrow> c)\<rparr>"
  from pack_while_returns [OF assms] obtain t where
    "pack_while prefs p m task needed day block ?s0 = Some t" by blast
  with Cons [of "t\<lparr>taskConsecutiveCounts := (taskConsecutiveCounts t)(task_id task \<mapsto> 0)\<rparr>"]
  show ?case by auto
qed

lemma pack_days_returns:
  assumes "needed \<noteq> PosInfinity"
  shows "\<exists>s'. pack_days prefs p m task needed days s = Some s'"
proof (induction days arbitrary: s)
  case Nil
  show ?case by simp
next
  case (Cons d rest)
  obtain day blocks where d: "d = (day, blocks)" by (cases d)
  from pack_blocks_returns [OF assms] obtain t where
    "pack_blocks prefs p m task needed day blocks s = Some t" by blast
  with Cons [of t] d show ?case by auto
qed

lemma pack_tasks_returns:
  assumes "p \<noteq> 0"
  shows "\<exists>s'. pack_tasks prefs p m days tasks s = Some s'"
proof (induction tasks arbitrary: s)
  case Nil
  show ?case by simp
next
  case (Cons task rest)
  have "js_ceil (js_div (estimatedHours task * 60) p) \<noteq> PosInfinity"
    using assms by (simp add: js_div_def)
  from pack_days_returns [OF this] obtain t where
    "pack_days prefs p m task (js_ceil (js_div (estimatedHours task * 60) p)) days
       (s\<lparr>sessionsScheduled := 0\<rparr>) = Some t" by blast
  with Cons [of t] show ?case by auto
qed

text \<open>
  With a pomodoro length other than zero every planning call returns a proposal.
\<close>

theorem planner_returns:
  assumes "pomodoroMinutes \<noteq> 0"
  shows "\<exists>proposal. generateProposedWeeklyScheduleWithHistory tasks preferences currentDay
            pomodoroMinutes completedSessions dailyMetrics = Some proposal"
proof -
  from pack_tasks_returns [OF assms] obtain s where
    "pack_tasks preferences pomodoroMinutes
       (max_usable_minutes tasks preferences pomodoroMinutes completedSessions dailyMetrics)
       (zip [0..<7] (planned_week_blocks tasks preferences pomodoroMinutes completedSessions))
       (sortTasksByPriority tasks currentDay) initial_state = Some s"
    by blast
  then show ?thesis
    by (simp add: generateProposedWeeklyScheduleWithHistory_def Let_def)
qed

text \<open>
  The planner returns on the scenario's input with 25-minute pomodoros.
\<close>

theorem planner_returns_witness:
  "(25::real) \<noteq> 0
   \<and> (\<exists>proposal. generateProposedWeeklyScheduleWithHistory
          [\<lparr>task_id = ''a'', task_name = ''a'', estimatedHours = 2, urgency = 5,
            deadlineDayIndex = None\<rparr>]
          \<lparr>sleepTimeMinutes = 1320, wakeTimeMinutes = 480, preferredActivityTime = morning,
           maxConsecutivePomodoros = 4, unavailableSlots = []\<rparr>
          0 25 [] [] = Some proposal)"
proof -
  have h: "(25::real) \<noteq> 0" by simp
  from planner_returns [OF h] h show ?thesis by blast
qed

text \<open>
  With \<^verbatim>\<open>pomodoroMinutes = 0\<close> a task of positive size needs \<open>+Infinity\<close> sessions, and a
  turn of the loop moves neither the cursor nor the used minutes: once entered, the loop
  never ends.
\<close>

lemma pack_while_never_returns:
  assumes "pack_cond 0 m PosInfinity block s"
  shows "pack_while prefs 0 m task PosInfinity day block s = None"
proof (rule ccontr)
  assume "pack_while prefs 0 m task PosInfinity day block s \<noteq> None"
  then obtain s' where run: "pack_while prefs 0 m task PosInfinity day block s = Some s'"
    by auto
  let ?P = "\<lambda>a b c d e f g x (y::PackState).
      b = 0 \<and> e = PosInfinity \<and> pack_cond b c e g x \<longrightarrow> False"
  have "?P prefs 0 m task PosInfinity day block s s'"
  proof (rule pack_while.raw_induct [where P = ?P, OF _ run], goal_cases)
    case (1 pw a b c d e f g x y)
    show ?case
    proof (intro impI, elim conjE)
      assume b: "b = 0" and e: "e = PosInfinity" and c: "pack_cond b c e g x"
      let ?bc = "break_check a b g x"
      let ?x1 = "take_break ?bc d x"
      have cur: "blockCursor ?x1 = blockCursor x"
        by (simp add: take_break_cursor break_check_def shouldInsertBreak_def js_round_def b)
      from c b have fit: "blockCursor x \<le> tb_endMinutes g" by (simp add: pack_cond_def)
      with cur b have noexit: "\<not> (bc_insert ?bc \<and> tb_endMinutes g < blockCursor ?x1 + b)"
        by simp
      with 1(2) c have r: "pw a b c d e f g (push_session b d f ?x1) = Some y"
        by (simp add: Let_def)
      have "pack_cond b c e g (push_session b d f ?x1)"
        using c cur b e by (simp add: pack_cond_def push_session_def)
      with 1(1) [OF r] b e show False by simp
    qed
  qed
  with assms show False by simp
qed

text \<open>
  The scenario's input with a pomodoro length of zero: the planning call never returns.
\<close>

theorem zero_pomodoro_never_returns:
  "generateProposedWeeklySchedule
     [\<lparr>task_id = i, task_name = n, estimatedHours = 2, urgency = 5, deadlineDayIndex = None\<rparr>]
     \<lparr>sleepTimeMinutes = 1320, wakeTimeMinutes = 480, preferredActivityTime = pa,
      maxConsecutivePomodoros = 4, unavailableSlots = []\<rparr>
     currentDay 0 = None"
  by (simp add: generateProposedWeeklySchedule_def generateProposedWeeklyScheduleWithHistory_def
        max_usable_minutes_def planned_week_blocks_def history_metrics_def
        sortTasksByPriority_def buildFocusProfile_def week_blocks_def
        weightAndSortBlocks_def calculateAvailableBlocks_def total_available_minutes_def
        applyAdjustmentFactorToCapacity_def initial_state_def js_div_def
        calculateBlockWeight_def getTimeOfDay_def focus_by_time_def Let_def week_days
        pack_while_never_returns pack_cond_def)

section \<open>The ceiling and the packer\<close>

text \<open>
  C1. A week of seven 100-minute blocks, seven on-track days (adjustment factor 1) and one
  task of twelve hours, with 100-minute sessions: the ceiling is \<open>700 \<times> 0.75 = 525\<close> minutes.
  The loop tests \<open>usedMinutes < maxUsableMinutes\<close> before it adds a session, so the sixth
  session is placed at 500 used minutes and the plan holds 600 minutes, more than the
  ceiling.
\<close>

theorem ceiling_overshoot:
  "generateProposedWeeklyScheduleWithHistory
     [\<lparr>task_id = ''a'', task_name = ''a'', estimatedHours = 12, urgency = 5,
       deadlineDayIndex = None\<rparr>]
     \<lparr>sleepTimeMinutes = 100, wakeTimeMinutes = 0, preferredActivityTime = morning,
      maxConsecutivePomodoros = 4, unavailableSlots = []\<rparr>
     0 100 []
     (replicate 7 \<lparr>status = on_track, plannedMinutes = 100, actualMinutes = 100,
        adherenceScore = 1, focusScore = 4 / 5, adjustmentFactor = 1\<rparr>)
   = Some
     \<lparr>sessions =
       [\<lparr>ss_id = ''session_0'', ss_taskId = ''a'', ss_dayOfWeek = 0,
         ss_startMinutes = 0, ss_endMinutes = 100, ss_sequenceNumber = 0\<rparr>,
        \<lparr>ss_id = ''session_1'', ss_taskId = ''a'', ss_dayOfWeek = 1,
         ss_startMinutes = 0, ss_endMinutes = 100, ss_sequenceNumber = 0\<rparr>,
        \<lparr>ss_id = ''session_2'', ss_taskId = ''a'', ss_dayOfWeek = 2,
         ss_startMinutes = 0, ss_endMinutes = 100, ss_sequenceNumber = 0\<rparr>,
        \<lparr>ss_id = ''session_3'', ss_taskId = ''a'', ss_dayOfWeek = 3,
         ss_startMinutes = 0, ss_endMinutes = 100, ss_sequenceNumber = 0\<rparr>,
        \<lparr>ss_id = ''session_4'', ss_taskId = ''a'', ss_dayOfWeek = 4,
         ss_startMinutes = 0, ss_endMinutes = 100, ss_sequenceNumber = 0\<rparr>,
        \<lparr>ss_id = ''session_5'', ss_taskId = ''a'', ss_dayOfWeek = 5,
         ss_startMinutes = 0, ss_endMinutes = 100, ss_sequenceNumber = 0\<rparr>],
      totalPlannedHours = 10, utilizationRate = Num (8 / 7)\<rparr>
   \<and> max_usable_minutes
       [\<lparr>task_id = ''a'', task_name = ''a'', estimatedHours = 12, urgency = 5,
         deadlineDayIndex = None\<rparr>]
       \<lparr>sleepTimeMinutes = 100, wakeTimeMinutes = 0, preferredActivityTime = morning,
        maxConsecutivePomodoros = 4, unavailableSlots = []\<rparr>
       100 []
       (replicate 7 \<lparr>status = on_track, plannedMinutes = 100, actualMinutes = 100,
          adherenceScore = 1, focusScore = 4 / 5, adjustmentFactor = 1\<rparr>)
     = 525
   \<and> (525::real) < 10 * 60"
  by (simp add: planning_defs)

text \<open>
  What the packer does guarantee, for every input with a positive pomodoro length: the
  planned minutes stay below the ceiling plus one pomodoro, and they are the number of
  sessions times the pomodoro length.
\<close>

theorem planned_minutes_bound:
  assumes "0 < pomodoroMinutes"
    and "generateProposedWeeklyScheduleWithHistory tasks preferences currentDay pomodoroMinutes
           completedSessions dailyMetrics = Some proposal"
  shows "totalPlannedHours proposal * 60
           < max_usable_minutes tasks preferences pomodoroMinutes completedSessions dailyMetrics
               + pomodoroMinutes
       \<and> totalPlannedHours proposal * 60 = real (length (sessions proposal)) * pomodoroMinutes"
proof -
  let ?m = "max_usable_minutes tasks preferences pomodoroMinutes completedSessions dailyMetrics"
  let ?G = "\<lambda>ss used. used < ?m + pomodoroMinutes \<and> used = real (length ss) * pomodoroMinutes"
  from assms(2) obtain s where
    pk: "pack_tasks preferences pomodoroMinutes ?m
           (zip [0..<7] (planned_week_blocks tasks preferences pomodoroMinutes completedSessions))
           (sortTasksByPriority tasks currentDay) initial_state = Some s"
    and se: "sessions proposal = ps_sessions s"
    and tp: "totalPlannedHours proposal = usedMinutes s / 60"
    by (rule generate_SomeD)
  have p0: "0 \<le> pomodoroMinutes" using assms(1) by simp
  have "?G (ps_sessions s) (usedMinutes s)"
  proof (rule pack_tasks_sessions_rule [where G = ?G, OF pk p0], goal_cases)
    case 1
    from max_usable_nonneg [of tasks preferences pomodoroMinutes completedSessions dailyMetrics]
      assms(1) show ?case by (simp add: initial_state_def)
  next
    case (2 t task day blocks block)
    then show ?case by (simp add: push_session_def algebra_simps)
  qed
  with se tp show ?thesis by simp
qed

text \<open>
  The bound on the cold-start plan of a twelve-hour task in a week of seven 100-minute
  blocks: three sessions, 300 minutes, ceiling 262.5.
\<close>

theorem planned_minutes_bound_witness:
  "(0::real) < 100
   \<and> 5 * 60 < max_usable_minutes
        [\<lparr>task_id = ''a'', task_name = ''a'', estimatedHours = 12, urgency = 5,
          deadlineDayIndex = None\<rparr>]
        \<lparr>sleepTimeMinutes = 100, wakeTimeMinutes = 0, preferredActivityTime = morning,
         maxConsecutivePomodoros = 4, unavailableSlots = []\<rparr> 100 [] [] + 100
   \<and> (5::real) * 60 = real (length
        [\<lparr>ss_id = ''session_0'', ss_taskId = ''a'', ss_dayOfWeek = 0,
          ss_startMinutes = 0, ss_endMinutes = 100, ss_sequenceNumber = 0\<rparr>,
         \<lparr>ss_id = ''session_1'', ss_taskId = ''a'', ss_dayOfWeek = 1,
          ss_startMinutes = 0, ss_endMinutes = 100, ss_sequenceNumber = 0\<rparr>,
         \<lparr>ss_id = ''session_2'', ss_taskId = ''a'', ss_dayOfWeek = 2,
          ss_startMinutes = 0, ss_endMinutes = 100, ss_sequenceNumber = 0\<rparr>]) * 100"
proof -
  let ?tasks = "[\<lparr>task_id = ''a'', task_name = ''a'', estimatedHours = 12, urgency = 5,
                  deadlineDayIndex = None\<rparr>]"
  let ?prefs = "\<lparr>sleepTimeMinutes = 100, wakeTimeMinutes = 0, preferredActivityTime = morning,
                 maxConsecutivePomodoros = 4, unavailableSlots = []\<rparr>"
  let ?plan = "\<lparr>sessions =
       [\<lparr>ss_id = ''session_0'', ss_taskId = ''a'', ss_dayOfWeek = 0,
         ss_startMinutes = 0, ss_endMinutes = 100, ss_sequenceNumber = 0\<rparr>,
        \<lparr>ss_id = ''session_1'', ss_taskId = ''a'', ss_dayOfWeek = 1,
         ss_startMinutes = 0, ss_endMinutes = 100, ss_sequenceNumber = 0\<rparr>,
        \<lparr>ss_id = ''session_2'', ss_taskId = ''a'', ss_dayOfWeek = 2,
         ss_startMinutes = 0, ss_endMinutes = 100, ss_sequenceNumber = 0\<rparr>],
      totalPlannedHours = 5, utilizationRate = Num (8 / 7)\<rparr>"
  have h: "(0::real) < 100" by simp
  have run: "generateProposedWeeklyScheduleWithHistory ?tasks ?prefs 0 100 [] [] = Some ?plan"
    by (simp add: planning_defs)
  from planned_minutes_bound [OF h run] h show ?thesis by simp
qed

text \<open>
  C4. When wake and sleep time coincide no block exists, the ceiling is 0 and nothing is
  scheduled; the utilization is then \<open>0 / 0\<close>, which is NaN and not 0.
\<close>

theorem zero_capacity_utilization:
  "generateProposedWeeklySchedule
     [\<lparr>task_id = ''a'', task_name = ''a'', estimatedHours = 1, urgency = 5,
       deadlineDayIndex = None\<rparr>]
     \<lparr>sleepTimeMinutes = 480, wakeTimeMinutes = 480, preferredActivityTime = morning,
      maxConsecutivePomodoros = 4, unavailableSlots = []\<rparr>
     0 25
   = Some \<lparr>sessions = [], totalPlannedHours = 0, utilizationRate = NaN\<rparr>"
  by (simp add: planning_defs)

text \<open>
  For every input with a ceiling of zero the proposal is empty and its utilization is
  NaN.
\<close>

theorem zero_ceiling_gives_nan:
  assumes "0 \<le> pomodoroMinutes"
    and "max_usable_minutes tasks preferences pomodoroMinutes completedSessions dailyMetrics = 0"
    and "generateProposedWeeklyScheduleWithHistory tasks preferences currentDay pomodoroMinutes
           completedSessions dailyMetrics = Some proposal"
  shows "proposal = \<lparr>sessions = [], totalPlannedHours = 0, utilizationRate = NaN\<rparr>"
proof -
  let ?m = "max_usable_minutes tasks preferences pomodoroMinutes completedSessions dailyMetrics"
  let ?G = "\<lambda>ss (used::real). ss = ([]::ScheduledSession list) \<and> used = 0"
  from assms(3) obtain s where
    pk: "pack_tasks preferences pomodoroMinutes ?m
           (zip [0..<7] (planned_week_blocks tasks preferences pomodoroMinutes completedSessions))
           (sortTasksByPriority tasks currentDay) initial_state = Some s"
    and se: "sessions proposal = ps_sessions s"
    and tp: "totalPlannedHours proposal = usedMinutes s / 60"
    and ur: "utilizationRate proposal = js_div (usedMinutes s) ?m"
    by (rule generate_SomeD)
  have "?G (ps_sessions s) (usedMinutes s)"
  proof (rule pack_tasks_sessions_rule [where G = ?G, OF pk assms(1)], goal_cases)
    case 1
    show ?case by (simp add: initial_state_def)
  next
    case (2 t task day blocks block)
    with assms(2) show ?case by simp
  qed
  with se tp ur assms(2) show ?thesis by (cases proposal) (simp add: js_div_def)
qed

text \<open>
  The rule above when wake and sleep time coincide.
\<close>

theorem zero_ceiling_gives_nan_witness:
  "(0::real) \<le> 25
   \<and> max_usable_minutes
        [\<lparr>task_id = ''a'', task_name = ''a'', estimatedHours = 1, urgency = 5,
          deadlineDayIndex = None\<rparr>]
        \<lparr>sleepTimeMinutes = 480, wakeTimeMinutes = 480, preferredActivityTime = morning,
         maxConsecutivePomodoros = 4, unavailableSlots = []\<rparr> 25 [] [] = 0
   \<and> generateProposedWeeklyScheduleWithHistory
        [\<lparr>task_id = ''a'', task_name = ''a'', estimatedHours = 1, urgency = 5,
          deadlineDayIndex = None\<rparr>]
        \<lparr>sleepTimeMinutes = 480, wakeTimeMinutes = 480, preferredActivityTime = morning,
         maxConsecutivePomodoros = 4, unavailableSlots = []\<rparr> 0 25 [] []
       = Some \<lparr>sessions = [], totalPlannedHours = 0, utilizationRate = NaN\<rparr>"
proof -
  let ?tasks = "[\<lparr>task_id = ''a'', task_name = ''a'', estimatedHours = 1, urgency = 5,
                  deadlineDayIndex = None\<rparr>]"
  let ?prefs = "\<lparr>sleepTimeMinutes = 480, wakeTimeMinutes = 480,
                 preferredActivityTime = morning, maxConsecutivePomodoros = 4,
                 unavailableSlots = []\<rparr>"
  have h1: "(0::real) \<le> 25" by simp
  have h2: "max_usable_minutes ?tasks ?prefs 25 [] [] = 0" by (simp add: planning_defs)
  have run: "generateProposedWeeklyScheduleWithHistory ?tasks ?prefs 0 25 [] []
               = Some \<lparr>sessions = [], totalPlannedHours = 0, utilizationRate = NaN\<rparr>"
    by (simp add: planning_defs)
  from zero_ceiling_gives_nan [OF h1 h2 run] run h1 h2 show ?thesis by simp
qed

text \<open>
  For every input with a positive ceiling and a positive pomodoro length the utilization
  is a finite number, not negative and below \<open>1 + pomodoroMinutes / ceiling\<close>.
\<close>

theorem positive_ceiling_utilization:
  assumes "0 < pomodoroMinutes"
    and "0 < max_usable_minutes tasks preferences pomodoroMinutes completedSessions dailyMetrics"
    and "generateProposedWeeklyScheduleWithHistory tasks preferences currentDay pomodoroMinutes
           completedSessions dailyMetrics = Some proposal"
  shows "\<exists>r. utilizationRate proposal = Num r \<and> 0 \<le> r
           \<and> r < 1 + pomodoroMinutes
                   / max_usable_minutes tasks preferences pomodoroMinutes completedSessions
                       dailyMetrics"
proof -
  let ?m = "max_usable_minutes tasks preferences pomodoroMinutes completedSessions dailyMetrics"
  from assms(3) obtain s where
    pk: "pack_tasks preferences pomodoroMinutes ?m
           (zip [0..<7] (planned_week_blocks tasks preferences pomodoroMinutes completedSessions))
           (sortTasksByPriority tasks currentDay) initial_state = Some s"
    and se: "sessions proposal = ps_sessions s"
    and tp: "totalPlannedHours proposal = usedMinutes s / 60"
    and ur: "utilizationRate proposal = js_div (usedMinutes s) ?m"
    by (rule generate_SomeD)
  from planned_minutes_bound [OF assms(1,3)] tp
  have lt: "usedMinutes s < ?m + pomodoroMinutes"
    and eq: "usedMinutes s = real (length (sessions proposal)) * pomodoroMinutes"
    by simp_all
  from eq assms(1) have nonneg: "0 \<le> usedMinutes s" by simp
  from assms(2) ur have "utilizationRate proposal = Num (usedMinutes s / ?m)"
    by (simp add: js_div_def)
  moreover from nonneg assms(2) have "0 \<le> usedMinutes s / ?m" by simp
  moreover from lt assms(2) have "usedMinutes s / ?m < 1 + pomodoroMinutes / ?m"
    by (simp add: field_simps)
  ultimately show ?thesis by blast
qed

text \<open>
  The bound on the cold-start plan above, whose utilization is \<open>8 / 7\<close>.
\<close>

theorem positive_ceiling_utilization_witness:
  "(0::real) < 100
   \<and> 0 < max_usable_minutes
        [\<lparr>task_id = ''a'', task_name = ''a'', estimatedHours = 12, urgency = 5,
          deadlineDayIndex = None\<rparr>]
        \<lparr>sleepTimeMinutes = 100, wakeTimeMinutes = 0, preferredActivityTime = morning,
         maxConsecutivePomodoros = 4, unavailableSlots = []\<rparr> 100 [] []
   \<and> (\<exists>r. Num (8 / 7) = Num r \<and> 0 \<le> r \<and> r < 1 + 100 / (525 / 2))"
proof -
  let ?tasks = "[\<lparr>task_id = ''a'', task_name = ''a'', estimatedHours = 12, urgency = 5,
                  deadlineDayIndex = None\<rparr>]"
  let ?prefs = "\<lparr>sleepTimeMinutes = 100, wakeTimeMinutes = 0, preferredActivityTime = morning,
                 maxConsecutivePomodoros = 4, unavailableSlots = []\<rparr>"
  let ?plan = "\<lparr>sessions =
       [\<lparr>ss_id = ''session_0'', ss_taskId = ''a'', ss_dayOfWeek = 0,
         ss_startMinutes = 0, ss_endMinutes = 100, ss_sequenceNumber = 0\<rparr>,
        \<lparr>ss_id = ''session_1'', ss_taskId = ''a'', ss_dayOfWeek = 1,
         ss_startMinutes = 0, ss_endMinutes = 100, ss_sequenceNumber = 0\<rparr>,
        \<lparr>ss_id = ''session_2'', ss_taskId = ''a'', ss_dayOfWeek = 2,
         ss_startMinutes = 0, ss_endMinutes = 100, ss_sequenceNumber = 0\<rparr>],
      totalPlannedHours = 5, utilizationRate = Num (8 / 7)\<rparr>"
  have h1: "(0::real) < 100" by simp
  have m: "max_usable_minutes ?tasks ?prefs 100 [] [] = 525 / 2" by (simp add: planning_defs)
  then have h2: "0 < max_usable_minutes ?tasks ?prefs 100 [] []" by simp
  have run: "generateProposedWeeklyScheduleWithHistory ?tasks ?prefs 0 100 [] [] = Some ?plan"
    by (simp add: planning_defs)
  from positive_ceiling_utilization [OF h1 h2 run] h1 h2 m show ?thesis by simp
qed

section \<open>Placement of sessions\<close>

text \<open>
  C2. Two tasks of one session each: the cursor of a block starts again at the block's
  start for every task, so both sessions occupy \<open>[480, 505)\<close> of day 0.
\<close>

theorem double_booking:
  "generateProposedWeeklySchedule
     [\<lparr>task_id = ''a'', task_name = ''a'', estimatedHours = 1 / 4, urgency = 5,
       deadlineDayIndex = None\<rparr>,
      \<lparr>task_id = ''b'', task_name = ''b'', estimatedHours = 1 / 4, urgency = 3,
       deadlineDayIndex = None\<rparr>]
     \<lparr>sleepTimeMinutes = 1320, wakeTimeMinutes = 480, preferredActivityTime = morning,
      maxConsecutivePomodoros = 4, unavailableSlots = []\<rparr>
     0 25
   = Some
     \<lparr>sessions =
       [\<lparr>ss_id = ''session_0'', ss_taskId = ''a'', ss_dayOfWeek = 0,
         ss_startMinutes = 480, ss_endMinutes = 505, ss_sequenceNumber = 0\<rparr>,
        \<lparr>ss_id = ''session_1'', ss_taskId = ''b'', ss_dayOfWeek = 0,
         ss_startMinutes = 480, ss_endMinutes = 505, ss_sequenceNumber = 0\<rparr>],
      totalPlannedHours = 5 / 6, utilizationRate = Num (10 / 441)\<rparr>
   \<and> \<not> conflict_free
       [\<lparr>ss_id = ''session_0'', ss_taskId = ''a'', ss_dayOfWeek = 0,
         ss_startMinutes = 480, ss_endMinutes = 505, ss_sequenceNumber = 0\<rparr>,
        \<lparr>ss_id = ''session_1'', ss_taskId = ''b'', ss_dayOfWeek = 0,
         ss_startMinutes = 480, ss_endMinutes = 505, ss_sequenceNumber = 0\<rparr>]"
  by (simp add: planning_defs binary64_defs sessions_overlap_def)

lemma pack_while_apart:
  assumes run: "pack_while prefs p m task needed day block s = Some s'"
    and p: "0 \<le> p"
    and cur: "blockCursor s = tb_startMinutes block"
  shows "\<exists>g. ps_sessions s' = ps_sessions s @ g
           \<and> sorted_wrt (\<lambda>a b. \<not> sessions_overlap a b) g
           \<and> list_all (\<lambda>x. ss_taskId x = task_id task \<and> ss_dayOfWeek x = real day
                          \<and> tb_startMinutes block \<le> ss_startMinutes x
                          \<and> ss_endMinutes x \<le> tb_endMinutes block) g"
proof -
  let ?I = "\<lambda>t. tb_startMinutes block \<le> blockCursor t
            \<and> (\<exists>g. ps_sessions t = ps_sessions s @ g
                   \<and> sorted_wrt (\<lambda>a b. \<not> sessions_overlap a b) g
                   \<and> list_all (\<lambda>x. ss_taskId x = task_id task \<and> ss_dayOfWeek x = real day
                          \<and> tb_startMinutes block \<le> ss_startMinutes x
                          \<and> ss_endMinutes x \<le> tb_endMinutes block
                          \<and> ss_endMinutes x \<le> blockCursor t) g)"
  have "?I s'"
  proof (rule pack_while_rule [OF run, where I = ?I], goal_cases)
    case 1
    from cur show ?case by simp
  next
    case (2 t)
    have b: "0 \<le> breakMinutes (break_check prefs p block t)"
      unfolding break_check_def using p by (rule break_minutes_nonneg)
    from 2(1) obtain g where
      g: "ps_sessions t = ps_sessions s @ g" "sorted_wrt (\<lambda>a b. \<not> sessions_overlap a b) g"
        "list_all (\<lambda>x. ss_taskId x = task_id task \<and> ss_dayOfWeek x = real day
                          \<and> tb_startMinutes block \<le> ss_startMinutes x
                          \<and> ss_endMinutes x \<le> tb_endMinutes block
                          \<and> ss_endMinutes x \<le> blockCursor t) g"
      by blast
    from g(3) b have "list_all (\<lambda>x. ss_taskId x = task_id task \<and> ss_dayOfWeek x = real day
                          \<and> tb_startMinutes block \<le> ss_startMinutes x
                          \<and> ss_endMinutes x \<le> tb_endMinutes block
                          \<and> ss_endMinutes x
                              \<le> blockCursor (take_break (break_check prefs p block t) task t)) g"
      by (auto simp: list_all_iff take_break_cursor)
    with g(1,2) 2(1) b show ?case by (auto simp: take_break_cursor)
  next
    case (3 t)
    let ?t1 = "take_break (break_check prefs p block t) task t"
    have fit: "blockCursor ?t1 + p \<le> tb_endMinutes block"
      using 3(2,3) by (auto simp: take_break_cursor pack_cond_def)
    from 3(1) obtain g where
      c: "tb_startMinutes block \<le> blockCursor ?t1"
      and g: "ps_sessions ?t1 = ps_sessions s @ g"
        "sorted_wrt (\<lambda>a b. \<not> sessions_overlap a b) g"
        "list_all (\<lambda>x. ss_taskId x = task_id task \<and> ss_dayOfWeek x = real day
                          \<and> tb_startMinutes block \<le> ss_startMinutes x
                          \<and> ss_endMinutes x \<le> tb_endMinutes block
                          \<and> ss_endMinutes x \<le> blockCursor ?t1) g"
      by blast
    let ?x = "\<lparr>ss_id = ''session_'' @ string_of_nat (sessionId ?t1), ss_taskId = task_id task,
               ss_dayOfWeek = real day, ss_startMinutes = blockCursor ?t1,
               ss_endMinutes = blockCursor ?t1 + p,
               ss_sequenceNumber = consecutiveCount ?t1\<rparr>"
    have s1: "ps_sessions (push_session p task day ?t1) = ps_sessions s @ (g @ [?x])"
      using g(1) by (simp add: push_session_def)
    have s2: "sorted_wrt (\<lambda>a b. \<not> sessions_overlap a b) (g @ [?x])"
      using g(2,3) by (auto simp: sorted_wrt_append list_all_iff sessions_overlap_def)
    have s3: "list_all (\<lambda>x. ss_taskId x = task_id task \<and> ss_dayOfWeek x = real day
                          \<and> tb_startMinutes block \<le> ss_startMinutes x
                          \<and> ss_endMinutes x \<le> tb_endMinutes block
                          \<and> ss_endMinutes x \<le> blockCursor (push_session p task day ?t1))
                (g @ [?x])"
      using g(3) c fit p by (auto simp: list_all_iff push_session_def)
    have s4: "tb_startMinutes block \<le> blockCursor (push_session p task day ?t1)"
      using c p by (simp add: push_session_def)
    from s1 s2 s3 s4 show ?case by blast
  qed
  then show ?thesis by (auto simp: list_all_iff)
qed

lemma pack_blocks_apart:
  assumes "pack_blocks prefs p m task needed day blocks s = Some s'"
    and "0 \<le> p"
    and "sorted_wrt (\<lambda>a b. tb_endMinutes a \<le> tb_startMinutes b
                          \<or> tb_endMinutes b \<le> tb_startMinutes a) blocks"
  shows "\<exists>g. ps_sessions s' = ps_sessions s @ g
           \<and> sorted_wrt (\<lambda>a b. \<not> sessions_overlap a b) g
           \<and> list_all (\<lambda>x. ss_taskId x = task_id task \<and> ss_dayOfWeek x = real day
                          \<and> list_ex (\<lambda>b. tb_startMinutes b \<le> ss_startMinutes x
                                         \<and> ss_endMinutes x \<le> tb_endMinutes b) blocks) g"
  using assms
proof (induction blocks arbitrary: s)
  case Nil
  then show ?case by simp
next
  case (Cons block rest)
  show ?case
  proof (cases "js_ge (real (sessionsScheduled s)) needed \<or> m \<le> usedMinutes s")
    case True
    with Cons.prems(1) show ?thesis by (auto split: if_splits)
  next
    case False
    let ?s0 = "s\<lparr>blockCursor := tb_startMinutes block,
                  consecutiveCount :=
                    (case taskConsecutiveCounts s (task_id task) of None \<Rightarrow> 0 | Some c \<Rightarrow> c)\<rparr>"
    from False Cons.prems(1) obtain t where
      w: "pack_while prefs p m task needed day block ?s0 = Some t"
      and r: "pack_blocks prefs p m task needed day rest
                (t\<lparr>taskConsecutiveCounts := (taskConsecutiveCounts t)(task_id task \<mapsto> 0)\<rparr>) = Some s'"
      by (auto split: option.splits)
    from pack_while_apart [OF w Cons.prems(2)] obtain g1 where
      g1: "ps_sessions t = ps_sessions s @ g1"
        "sorted_wrt (\<lambda>a b. \<not> sessions_overlap a b) g1"
        "list_all (\<lambda>x. ss_taskId x = task_id task \<and> ss_dayOfWeek x = real day
                          \<and> tb_startMinutes block \<le> ss_startMinutes x
                          \<and> ss_endMinutes x \<le> tb_endMinutes block) g1"
      by auto
    from Cons.prems(3) have apart: "\<forall>b \<in> set rest. tb_endMinutes block \<le> tb_startMinutes b
                                       \<or> tb_endMinutes b \<le> tb_startMinutes block"
      and rest: "sorted_wrt (\<lambda>a b. tb_endMinutes a \<le> tb_startMinutes b
                          \<or> tb_endMinutes b \<le> tb_startMinutes a) rest"
      by simp_all
    from Cons.IH [OF r Cons.prems(2) rest] obtain g2 where
      g2: "ps_sessions s' = ps_sessions t @ g2"
        "sorted_wrt (\<lambda>a b. \<not> sessions_overlap a b) g2"
        "list_all (\<lambda>x. ss_taskId x = task_id task \<and> ss_dayOfWeek x = real day
                          \<and> list_ex (\<lambda>b. tb_startMinutes b \<le> ss_startMinutes x
                                         \<and> ss_endMinutes x \<le> tb_endMinutes b) rest) g2"
      by auto
    have cross: "\<not> sessions_overlap x y" if "x \<in> set g1" "y \<in> set g2" for x y
    proof -
      from g1(3) that(1) have x: "tb_startMinutes block \<le> ss_startMinutes x"
        "ss_endMinutes x \<le> tb_endMinutes block" by (auto simp: list_all_iff)
      from g2(3) that(2) obtain b where b: "b \<in> set rest"
        "tb_startMinutes b \<le> ss_startMinutes y" "ss_endMinutes y \<le> tb_endMinutes b"
        by (auto simp: list_all_iff list_ex_iff)
      from apart b(1) have "tb_endMinutes block \<le> tb_startMinutes b
                             \<or> tb_endMinutes b \<le> tb_startMinutes block" by blast
      with x b(2,3) show ?thesis by (auto simp: sessions_overlap_def)
    qed
    have "ps_sessions s' = ps_sessions s @ (g1 @ g2)" using g1(1) g2(1) by simp
    moreover have "sorted_wrt (\<lambda>a b. \<not> sessions_overlap a b) (g1 @ g2)"
      using g1(2) g2(2) cross by (auto simp: sorted_wrt_append)
    moreover have "list_all (\<lambda>x. ss_taskId x = task_id task \<and> ss_dayOfWeek x = real day
                          \<and> list_ex (\<lambda>b. tb_startMinutes b \<le> ss_startMinutes x
                                         \<and> ss_endMinutes x \<le> tb_endMinutes b) (block # rest))
                     (g1 @ g2)"
      using g1(3) g2(3) by (auto simp: list_all_iff list_ex_iff)
    ultimately show ?thesis by blast
  qed
qed

lemma pack_days_apart:
  assumes "pack_days prefs p m task needed days s = Some s'"
    and "0 \<le> p"
    and "distinct (map fst days)"
    and "list_all (\<lambda>d. sorted_wrt (\<lambda>a b. tb_endMinutes a \<le> tb_startMinutes b
                                        \<or> tb_endMinutes b \<le> tb_startMinutes a) (snd d)) days"
  shows "\<exists>g. ps_sessions s' = ps_sessions s @ g
           \<and> sorted_wrt (\<lambda>a b. \<not> sessions_overlap a b) g
           \<and> list_all (\<lambda>x. ss_taskId x = task_id task
                          \<and> list_ex (\<lambda>d. ss_dayOfWeek x = real (fst d)) days) g"
  using assms
proof (induction days arbitrary: s)
  case Nil
  then show ?case by simp
next
  case (Cons d rest)
  obtain day blocks where d: "d = (day, blocks)" by (cases d)
  show ?case
  proof (cases "js_lt (real (sessionsScheduled s)) needed")
    case False
    with Cons.prems(1) d show ?thesis by simp
  next
    case True
    with Cons.prems(1) d obtain t where
      b: "pack_blocks prefs p m task needed day blocks s = Some t"
      and r: "pack_days prefs p m task needed rest t = Some s'"
      by (auto split: option.splits)
    from Cons.prems(4) d have bl: "sorted_wrt (\<lambda>a b. tb_endMinutes a \<le> tb_startMinutes b
                                        \<or> tb_endMinutes b \<le> tb_startMinutes a) blocks"
      and rl: "list_all (\<lambda>d. sorted_wrt (\<lambda>a b. tb_endMinutes a \<le> tb_startMinutes b
                                        \<or> tb_endMinutes b \<le> tb_startMinutes a) (snd d)) rest"
      by simp_all
    from Cons.prems(3) d have fresh: "day \<notin> fst ` set rest" and dr: "distinct (map fst rest)"
      by simp_all
    from pack_blocks_apart [OF b Cons.prems(2) bl] obtain g1 where
      g1: "ps_sessions t = ps_sessions s @ g1"
        "sorted_wrt (\<lambda>a b. \<not> sessions_overlap a b) g1"
        "list_all (\<lambda>x. ss_taskId x = task_id task \<and> ss_dayOfWeek x = real day) g1"
      by (auto simp: list_all_iff)
    from Cons.IH [OF r Cons.prems(2) dr rl] obtain g2 where
      g2: "ps_sessions s' = ps_sessions t @ g2"
        "sorted_wrt (\<lambda>a b. \<not> sessions_overlap a b) g2"
        "list_all (\<lambda>x. ss_taskId x = task_id task
                          \<and> list_ex (\<lambda>d. ss_dayOfWeek x = real (fst d)) rest) g2"
      by auto
    have cross: "\<not> sessions_overlap x y" if "x \<in> set g1" "y \<in> set g2" for x y
    proof -
      from g1(3) that(1) have "ss_dayOfWeek x = real day" by (auto simp: list_all_iff)
      moreover from g2(3) that(2) obtain d' where "d' \<in> set rest" "ss_dayOfWeek y = real (fst d')"
        by (auto simp: list_all_iff list_ex_iff)
      moreover from this(1) fresh have "fst d' \<noteq> day" by auto
      ultimately show ?thesis by (simp add: sessions_overlap_def)
    qed
    have "ps_sessions s' = ps_sessions s @ (g1 @ g2)" using g1(1) g2(1) by simp
    moreover have "sorted_wrt (\<lambda>a b. \<not> sessions_overlap a b) (g1 @ g2)"
      using g1(2) g2(2) cross by (auto simp: sorted_wrt_append)
    moreover have "list_all (\<lambda>x. ss_taskId x = task_id task
                          \<and> list_ex (\<lambda>d. ss_dayOfWeek x = real (fst d)) (d # rest)) (g1 @ g2)"
      using g1(3) g2(3) d by (auto simp: list_all_iff list_ex_iff)
    ultimately show ?thesis by blast
  qed
qed

lemma pack_tasks_apart:
  assumes "pack_tasks prefs p m days tasks s = Some s'"
    and "0 \<le> p"
    and "distinct (map fst days)"
    and "list_all (\<lambda>d. sorted_wrt (\<lambda>a b. tb_endMinutes a \<le> tb_startMinutes b
                                        \<or> tb_endMinutes b \<le> tb_startMinutes a) (snd d)) days"
    and "distinct (map task_id tasks)"
    and "sorted_wrt (\<lambda>a b. \<not> sessions_overlap a b) (filter (\<lambda>x. ss_taskId x = i) (ps_sessions s))"
    and "filter (\<lambda>x. ss_taskId x = i) (ps_sessions s) = [] \<or> i \<notin> task_id ` set tasks"
  shows "sorted_wrt (\<lambda>a b. \<not> sessions_overlap a b) (filter (\<lambda>x. ss_taskId x = i) (ps_sessions s'))"
  using assms
proof (induction tasks arbitrary: s)
  case Nil
  then show ?case by simp
next
  case (Cons task rest)
  from Cons.prems(1) obtain t where
    d: "pack_days prefs p m task (js_ceil (js_div (estimatedHours task * 60) p)) days
          (s\<lparr>sessionsScheduled := 0\<rparr>) = Some t"
    and r: "pack_tasks prefs p m days rest t = Some s'"
    by (auto split: option.splits)
  from pack_days_apart [OF d Cons.prems(2,3,4)] obtain g where
    g: "ps_sessions t = ps_sessions s @ g"
      "sorted_wrt (\<lambda>a b. \<not> sessions_overlap a b) g"
      "list_all (\<lambda>x. ss_taskId x = task_id task) g"
    by (auto simp: list_all_iff)
  from Cons.prems(5) have dr: "distinct (map task_id rest)" and fresh: "task_id task \<notin> task_id ` set rest"
    by simp_all
  have f: "filter (\<lambda>x. ss_taskId x = i) g = (if task_id task = i then g else [])"
    using g(3) by (auto simp: list_all_iff filter_empty_conv intro: filter_True)
  have s1: "sorted_wrt (\<lambda>a b. \<not> sessions_overlap a b) (filter (\<lambda>x. ss_taskId x = i) (ps_sessions t))"
  proof (cases "task_id task = i")
    case True
    with Cons.prems(7) have "filter (\<lambda>x. ss_taskId x = i) (ps_sessions s) = []" by auto
    with g(1,2) f True show ?thesis by simp
  next
    case False
    with g(1) f Cons.prems(6) show ?thesis by simp
  qed
  have s2: "filter (\<lambda>x. ss_taskId x = i) (ps_sessions t) = [] \<or> i \<notin> task_id ` set rest"
    using Cons.prems(7) g(1) f fresh by auto
  show ?case by (rule Cons.IH [OF r Cons.prems(2,3,4) dr s1 s2])
qed

text \<open>
  What the packer does guarantee: when the task ids are distinct and no unavailable slot
  ends before it starts, the sessions of any one task are free of conflicts.
\<close>

theorem same_task_sessions_apart:
  assumes "0 \<le> pomodoroMinutes"
    and "list_all (\<lambda>s. us_startMinutes s \<le> us_endMinutes s) (unavailableSlots preferences)"
    and "distinct (map task_id tasks)"
    and "generateProposedWeeklyScheduleWithHistory tasks preferences currentDay pomodoroMinutes
           completedSessions dailyMetrics = Some proposal"
  shows "conflict_free (filter (\<lambda>x. ss_taskId x = i) (sessions proposal))"
proof -
  let ?m = "max_usable_minutes tasks preferences pomodoroMinutes completedSessions dailyMetrics"
  let ?fp = "buildFocusProfile completedSessions"
  let ?best = "case history_metrics tasks completedSessions of
                 None \<Rightarrow> None | Some wm \<Rightarrow> bestFocusTime wm"
  let ?W = "\<lambda>d. weightAndSortBlocks
                   (calculateAvailableBlocks (real d) preferences pomodoroMinutes) ?fp ?best"
  let ?days = "zip [0..<7] (planned_week_blocks tasks preferences pomodoroMinutes completedSessions)"
  from assms(4) obtain s where
    pk: "pack_tasks preferences pomodoroMinutes ?m ?days
           (sortTasksByPriority tasks currentDay) initial_state = Some s"
    and se: "sessions proposal = ps_sessions s"
    and tp: "totalPlannedHours proposal = usedMinutes s / 60"
    and ur: "utilizationRate proposal = js_div (usedMinutes s) ?m"
    by (rule generate_SomeD)
  have days: "?days = map (\<lambda>d. (d, ?W d)) [0..<7]"
    unfolding planned_week_blocks_def week_blocks_def by (simp add: zip_map2 zip_same_conv_map)
  have d1: "distinct (map fst ?days)"
    unfolding days by (simp add: comp_def)
  have d2: "list_all (\<lambda>d. sorted_wrt (\<lambda>a b. tb_endMinutes a \<le> tb_startMinutes b
                                        \<or> tb_endMinutes b \<le> tb_startMinutes a) (snd d)) ?days"
    unfolding days using weighted_blocks_apart [OF assms(2)] by (simp add: list_all_iff)
  have d3: "distinct (map task_id (sortTasksByPriority tasks currentDay))"
    using assms(3) by (simp add: sortTasksByPriority_def distinct_map_sort_key)
  have "sorted_wrt (\<lambda>a b. \<not> sessions_overlap a b) (filter (\<lambda>x. ss_taskId x = i) (ps_sessions s))"
    by (rule pack_tasks_apart [OF pk assms(1) d1 d2 d3]) (simp_all add: initial_state_def)
  with se show ?thesis by (simp add: conflict_free_sorted_wrt)
qed

text \<open>
  The rule above on a plan for two tasks around an unavailable hour: the three sessions of
  task \<open>a\<close> lie at 480, 505 and 600 of day 0.
\<close>

theorem same_task_sessions_apart_witness:
  "(0::real) \<le> 25
   \<and> list_all (\<lambda>s. us_startMinutes s \<le> us_endMinutes s)
        [\<lparr>us_dayOfWeek = 0, us_startMinutes = 540, us_endMinutes = 600,
          us_type = unavailable\<rparr>]
   \<and> distinct (map task_id
        [\<lparr>task_id = ''a'', task_name = ''a'', estimatedHours = 1, urgency = 5,
          deadlineDayIndex = None\<rparr>,
         \<lparr>task_id = ''b'', task_name = ''b'', estimatedHours = 1 / 4, urgency = 3,
          deadlineDayIndex = None\<rparr>])
   \<and> conflict_free (filter (\<lambda>x. ss_taskId x = ''a'')
        [\<lparr>ss_id = ''session_0'', ss_taskId = ''a'', ss_dayOfWeek = 0,
          ss_startMinutes = 480, ss_endMinutes = 505, ss_sequenceNumber = 0\<rparr>,
         \<lparr>ss_id = ''session_1'', ss_taskId = ''a'', ss_dayOfWeek = 0,
          ss_startMinutes = 505, ss_endMinutes = 530, ss_sequenceNumber = 1\<rparr>,
         \<lparr>ss_id = ''session_2'', ss_taskId = ''a'', ss_dayOfWeek = 0,
          ss_startMinutes = 600, ss_endMinutes = 625, ss_sequenceNumber = 0\<rparr>,
         \<lparr>ss_id = ''session_3'', ss_taskId = ''b'', ss_dayOfWeek = 0,
          ss_startMinutes = 480, ss_endMinutes = 505, ss_sequenceNumber = 0\<rparr>])"
proof -
  let ?tasks = "[\<lparr>task_id = ''a'', task_name = ''a'', estimatedHours = 1, urgency = 5,
                  deadlineDayIndex = None\<rparr>,
                 \<lparr>task_id = ''b'', task_name = ''b'', estimatedHours = 1 / 4, urgency = 3,
                  deadlineDayIndex = None\<rparr>]"
  let ?prefs = "\<lparr>sleepTimeMinutes = 1320, wakeTimeMinutes = 480,
                 preferredActivityTime = morning, maxConsecutivePomodoros = 4,
                 unavailableSlots = [\<lparr>us_dayOfWeek = 0, us_startMinutes = 540,
                                      us_endMinutes = 600, us_type = unavailable\<rparr>]\<rparr>"
  let ?plan = "\<lparr>sessions =
        [\<lparr>ss_id = ''session_0'', ss_taskId = ''a'', ss_dayOfWeek = 0,
          ss_startMinutes = 480, ss_endMinutes = 505, ss_sequenceNumber = 0\<rparr>,
         \<lparr>ss_id = ''session_1'', ss_taskId = ''a'', ss_dayOfWeek = 0,
          ss_startMinutes = 505, ss_endMinutes = 530, ss_sequenceNumber = 1\<rparr>,
         \<lparr>ss_id = ''session_2'', ss_taskId = ''a'', ss_dayOfWeek = 0,
          ss_startMinutes = 600, ss_endMinutes = 625, ss_sequenceNumber = 0\<rparr>,
         \<lparr>ss_id = ''session_3'', ss_taskId = ''b'', ss_dayOfWeek = 0,
          ss_startMinutes = 480, ss_endMinutes = 505, ss_sequenceNumber = 0\<rparr>],
      totalPlannedHours = 5 / 3, utilizationRate = Num (40 / 873)\<rparr>"
  have h1: "(0::real) \<le> 25" by simp
  have h2: "list_all (\<lambda>s. us_startMinutes s \<le> us_endMinutes s) (unavailableSlots ?prefs)"
    by simp
  have h3: "distinct (map task_id ?tasks)" by simp
  have run: "generateProposedWeeklyScheduleWithHistory ?tasks ?prefs 0 25 [] [] = Some ?plan"
    by (simp add: planning_defs binary64_defs)
  from same_task_sessions_apart [OF h1 h2 h3 run, of "''a''"] h1 h3 show ?thesis by simp
qed

text \<open>
  C5. An unavailable slot that begins after sleep time (here \<open>[700, 800)\<close> with sleep at
  600) closes a block \<open>[480, 700)\<close> that reaches past sleep time; the third session of the
  task is placed in \<open>[600, 660)\<close>, outside the waking hours \<open>[480, 600)\<close>.
\<close>

theorem session_after_sleep_time:
  "generateProposedWeeklySchedule
     [\<lparr>task_id = ''a'', task_name = ''a'', estimatedHours = 3, urgency = 5,
       deadlineDayIndex = None\<rparr>]
     \<lparr>sleepTimeMinutes = 600, wakeTimeMinutes = 480, preferredActivityTime = morning,
      maxConsecutivePomodoros = 4,
      unavailableSlots = [\<lparr>us_dayOfWeek = 0, us_startMinutes = 700, us_endMinutes = 800,
                            us_type = unavailable\<rparr>]\<rparr>
     0 60
   = Some
     \<lparr>sessions =
       [\<lparr>ss_id = ''session_0'', ss_taskId = ''a'', ss_dayOfWeek = 0,
         ss_startMinutes = 480, ss_endMinutes = 540, ss_sequenceNumber = 0\<rparr>,
        \<lparr>ss_id = ''session_1'', ss_taskId = ''a'', ss_dayOfWeek = 0,
         ss_startMinutes = 540, ss_endMinutes = 600, ss_sequenceNumber = 1\<rparr>,
        \<lparr>ss_id = ''session_2'', ss_taskId = ''a'', ss_dayOfWeek = 0,
         ss_startMinutes = 600, ss_endMinutes = 660, ss_sequenceNumber = 2\<rparr>],
      totalPlannedHours = 3, utilizationRate = Num (24 / 47)\<rparr>
   \<and> \<not> within_waking_hours
       \<lparr>sleepTimeMinutes = 600, wakeTimeMinutes = 480, preferredActivityTime = morning,
        maxConsecutivePomodoros = 4,
        unavailableSlots = [\<lparr>us_dayOfWeek = 0, us_startMinutes = 700, us_endMinutes = 800,
                              us_type = unavailable\<rparr>]\<rparr>
       \<lparr>ss_id = ''session_2'', ss_taskId = ''a'', ss_dayOfWeek = 0,
        ss_startMinutes = 600, ss_endMinutes = 660, ss_sequenceNumber = 2\<rparr>"
  by (simp add: planning_defs within_waking_hours_def)

text \<open>
  What the packer does guarantee, for every input with a pomodoro length that is not
  negative: every session lasts one pomodoro, starts at or after wake time, belongs to a
  task of the list, lies on one of the days 0 to 6 and lies inside a free block of its day.
\<close>

theorem session_placement:
  assumes "0 \<le> pomodoroMinutes"
    and "generateProposedWeeklyScheduleWithHistory tasks preferences currentDay pomodoroMinutes
           completedSessions dailyMetrics = Some proposal"
  shows "list_all
           (\<lambda>x. ss_endMinutes x = ss_startMinutes x + pomodoroMinutes
               \<and> wakeTimeMinutes preferences \<le> ss_startMinutes x
               \<and> list_ex (\<lambda>t. task_id t = ss_taskId x) tasks
               \<and> list_ex (\<lambda>d. ss_dayOfWeek x = real d) [0..<7]
               \<and> list_ex (\<lambda>b. tb_startMinutes b \<le> ss_startMinutes x
                              \<and> ss_endMinutes x \<le> tb_endMinutes b)
                    (calculateAvailableBlocks (ss_dayOfWeek x) preferences pomodoroMinutes))
           (sessions proposal)"
proof -
  let ?m = "max_usable_minutes tasks preferences pomodoroMinutes completedSessions dailyMetrics"
  let ?Q = "\<lambda>x. ss_endMinutes x = ss_startMinutes x + pomodoroMinutes
               \<and> wakeTimeMinutes preferences \<le> ss_startMinutes x
               \<and> list_ex (\<lambda>t. task_id t = ss_taskId x) tasks
               \<and> list_ex (\<lambda>d. ss_dayOfWeek x = real d) [0..<7]
               \<and> list_ex (\<lambda>b. tb_startMinutes b \<le> ss_startMinutes x
                              \<and> ss_endMinutes x \<le> tb_endMinutes b)
                    (calculateAvailableBlocks (ss_dayOfWeek x) preferences pomodoroMinutes)"
  let ?G = "\<lambda>ss (used::real). list_all ?Q ss"
  from assms(2) obtain s where
    pk: "pack_tasks preferences pomodoroMinutes ?m
           (zip [0..<7] (planned_week_blocks tasks preferences pomodoroMinutes completedSessions))
           (sortTasksByPriority tasks currentDay) initial_state = Some s"
    and se: "sessions proposal = ps_sessions s"
    by (rule generate_SomeD)
  have "?G (ps_sessions s) (usedMinutes s)"
  proof (rule pack_tasks_sessions_rule [where G = ?G, OF pk assms(1)], goal_cases)
    case 1
    show ?case by (simp add: initial_state_def)
  next
    case (2 t task day blocks block)
    from 2(1) have tk: "task \<in> set tasks" by (simp add: sortTasksByPriority_def)
    from week_block_source [OF 2(2,3)] obtain b0 where
      d: "day < 7"
      and b0: "b0 \<in> set (calculateAvailableBlocks (real day) preferences pomodoroMinutes)"
        "tb_startMinutes block = tb_startMinutes b0" "tb_endMinutes block = tb_endMinutes b0"
      by blast
    from available_blocks_well_formed [of preferences pomodoroMinutes "real day"] b0(1)
    have w: "wakeTimeMinutes preferences \<le> tb_startMinutes b0" by (auto simp: list_all_iff)
    have "?Q \<lparr>ss_id = ''session_'' @ string_of_nat (sessionId t), ss_taskId = task_id task,
              ss_dayOfWeek = real day, ss_startMinutes = blockCursor t,
              ss_endMinutes = blockCursor t + pomodoroMinutes,
              ss_sequenceNumber = consecutiveCount t\<rparr>"
      using tk d b0 w 2(5,6) by (auto simp: list_ex_iff)
    with 2(4) show ?case by (simp add: push_session_def)
  qed
  with se show ?thesis by simp
qed

text \<open>
  The rule above on the plan of the input above: also the session at \<open>[600, 660)\<close> lies inside
  the block \<open>[480, 700)\<close>.
\<close>

theorem session_placement_witness:
  "(0::real) \<le> 60
   \<and> list_all
        (\<lambda>x. ss_endMinutes x = ss_startMinutes x + 60
            \<and> 480 \<le> ss_startMinutes x
            \<and> list_ex (\<lambda>t. task_id t = ss_taskId x)
                 [\<lparr>task_id = ''a'', task_name = ''a'', estimatedHours = 3, urgency = 5,
                   deadlineDayIndex = None\<rparr>]
            \<and> list_ex (\<lambda>d. ss_dayOfWeek x = real d) [0..<7]
            \<and> list_ex (\<lambda>b. tb_startMinutes b \<le> ss_startMinutes x
                           \<and> ss_endMinutes x \<le> tb_endMinutes b)
                 (calculateAvailableBlocks (ss_dayOfWeek x)
                    \<lparr>sleepTimeMinutes = 600, wakeTimeMinutes = 480,
                     preferredActivityTime = morning, maxConsecutivePomodoros = 4,
                     unavailableSlots = [\<lparr>us_dayOfWeek = 0, us_startMinutes = 700,
                                          us_endMinutes = 800, us_type = unavailable\<rparr>]\<rparr> 60))
        [\<lparr>ss_id = ''session_0'', ss_taskId = ''a'', ss_dayOfWeek = 0,
          ss_startMinutes = 480, ss_endMinutes = 540, ss_sequenceNumber = 0\<rparr>,
         \<lparr>ss_id = ''session_1'', ss_taskId = ''a'', ss_dayOfWeek = 0,
          ss_startMinutes = 540, ss_endMinutes = 600, ss_sequenceNumber = 1\<rparr>,
         \<lparr>ss_id = ''session_2'', ss_taskId = ''a'', ss_dayOfWeek = 0,
          ss_startMinutes = 600, ss_endMinutes = 660, ss_sequenceNumber = 2\<rparr>]"
proof -
  let ?tasks = "[\<lparr>task_id = ''a'', task_name = ''a'', estimatedHours = 3, urgency = 5,
                  deadlineDayIndex = None\<rparr>]"
  let ?prefs = "\<lparr>sleepTimeMinutes = 600, wakeTimeMinutes = 480,
                 preferredActivityTime = morning, maxConsecutivePomodoros = 4,
                 unavailableSlots = [\<lparr>us_dayOfWeek = 0, us_startMinutes = 700,
                                      us_endMinutes = 800, us_type = unavailable\<rparr>]\<rparr>"
  let ?plan = "\<lparr>sessions =
       [\<lparr>ss_id = ''session_0'', ss_taskId = ''a'', ss_dayOfWeek = 0,
         ss_startMinutes = 480, ss_endMinutes = 540, ss_sequenceNumber = 0\<rparr>,
        \<lparr>ss_id = ''session_1'', ss_taskId = ''a'', ss_dayOfWeek = 0,
         ss_startMinutes = 540, ss_endMinutes = 600, ss_sequenceNumber = 1\<rparr>,
        \<lparr>ss_id = ''session_2'', ss_taskId = ''a'', ss_dayOfWeek = 0,
         ss_startMinutes = 600, ss_endMinutes = 660, ss_sequenceNumber = 2\<rparr>],
      totalPlannedHours = 3, utilizationRate = Num (24 / 47)\<rparr>"
  have h: "(0::real) \<le> 60" by simp
  have run: "generateProposedWeeklyScheduleWithHistory ?tasks ?prefs 0 60 [] [] = Some ?plan"
    by (simp add: planning_defs)
  from session_placement [OF h run] h show ?thesis by simp
qed

text \<open>
  When every unavailable slot starts at or before sleep time, every session lies within
  the waking hours.
\<close>

theorem sessions_within_waking_hours:
  assumes "0 \<le> pomodoroMinutes"
    and "list_all (\<lambda>s. us_startMinutes s \<le> sleepTimeMinutes preferences)
           (unavailableSlots preferences)"
    and "generateProposedWeeklyScheduleWithHistory tasks preferences currentDay pomodoroMinutes
           completedSessions dailyMetrics = Some proposal"
  shows "list_all (within_waking_hours preferences) (sessions proposal)"
proof -
  have "within_waking_hours preferences x" if "x \<in> set (sessions proposal)" for x
  proof -
    from session_placement [OF assms(1,3)] that obtain b where
      w: "wakeTimeMinutes preferences \<le> ss_startMinutes x"
      and b: "b \<in> set (calculateAvailableBlocks (ss_dayOfWeek x) preferences pomodoroMinutes)"
        "ss_endMinutes x \<le> tb_endMinutes b"
      by (auto simp: list_all_iff list_ex_iff)
    from available_blocks_before_sleep [OF assms(2)] b(1)
    have "tb_endMinutes b \<le> sleepTimeMinutes preferences" by (auto simp: list_all_iff)
    with w b(2) show ?thesis by (simp add: within_waking_hours_def)
  qed
  then show ?thesis by (simp add: list_all_iff)
qed

text \<open>
  The rule above with a slot \<open>[490, 1300)\<close> on day 0: the one session is placed on day 1.
\<close>

theorem sessions_within_waking_hours_witness:
  "(0::real) \<le> 25
   \<and> list_all (\<lambda>s. us_startMinutes s \<le> 1320)
        [\<lparr>us_dayOfWeek = 0, us_startMinutes = 490, us_endMinutes = 1300,
          us_type = unavailable\<rparr>]
   \<and> list_all
        (within_waking_hours
           \<lparr>sleepTimeMinutes = 1320, wakeTimeMinutes = 480, preferredActivityTime = morning,
            maxConsecutivePomodoros = 4,
            unavailableSlots = [\<lparr>us_dayOfWeek = 0, us_startMinutes = 490,
                                 us_endMinutes = 1300, us_type = unavailable\<rparr>]\<rparr>)
        [\<lparr>ss_id = ''session_0'', ss_taskId = ''a'', ss_dayOfWeek = 1,
          ss_startMinutes = 480, ss_endMinutes = 505, ss_sequenceNumber = 0\<rparr>]"
proof -
  let ?tasks = "[\<lparr>task_id = ''a'', task_name = ''a'', estimatedHours = 1 / 4, urgency = 5,
                  deadlineDayIndex = None\<rparr>]"
  let ?prefs = "\<lparr>sleepTimeMinutes = 1320, wakeTimeMinutes = 480,
                 preferredActivityTime = morning, maxConsecutivePomodoros = 4,
                 unavailableSlots = [\<lparr>us_dayOfWeek = 0, us_startMinutes = 490,
                                      us_endMinutes = 1300, us_type = unavailable\<rparr>]\<rparr>"
  let ?plan = "\<lparr>sessions =
       [\<lparr>ss_id = ''session_0'', ss_taskId = ''a'', ss_dayOfWeek = 1,
         ss_startMinutes = 480, ss_endMinutes = 505, ss_sequenceNumber = 0\<rparr>],
      totalPlannedHours = 5 / 12, utilizationRate = Num (5 / 378)\<rparr>"
  have h1: "(0::real) \<le> 25" by simp
  have h2: "list_all (\<lambda>s. us_startMinutes s \<le> sleepTimeMinutes ?prefs)
              (unavailableSlots ?prefs)" by simp
  have run: "generateProposedWeeklyScheduleWithHistory ?tasks ?prefs 0 25 [] [] = Some ?plan"
    by (simp add: planning_defs)
  from sessions_within_waking_hours [OF h1 h2 run] h1 show ?thesis by simp
qed

text \<open>
  C6. The scenario: wake 480, sleep 1320, no unavailable slots, at most 4 consecutive
  pomodoros, one task of 2 hours with urgency 5 and no deadline, 25-minute pomodoros, no
  history. For every current day the plan has exactly five sessions, all on day 0; the
  first four are back to back from 480 to 580, and the fifth starts at 590, after the break
  of \<open>round (25 \<times> 0.4) = 10\<close> minutes.
\<close>

theorem scenario_five_sessions:
  "generateProposedWeeklySchedule
     [\<lparr>task_id = i, task_name = n, estimatedHours = 2, urgency = 5, deadlineDayIndex = None\<rparr>]
     \<lparr>sleepTimeMinutes = 1320, wakeTimeMinutes = 480, preferredActivityTime = pa,
      maxConsecutivePomodoros = 4, unavailableSlots = []\<rparr>
     currentDay 25
   = Some
     \<lparr>sessions =
       [\<lparr>ss_id = ''session_0'', ss_taskId = i, ss_dayOfWeek = 0,
         ss_startMinutes = 480, ss_endMinutes = 505, ss_sequenceNumber = 0\<rparr>,
        \<lparr>ss_id = ''session_1'', ss_taskId = i, ss_dayOfWeek = 0,
         ss_startMinutes = 505, ss_endMinutes = 530, ss_sequenceNumber = 1\<rparr>,
        \<lparr>ss_id = ''session_2'', ss_taskId = i, ss_dayOfWeek = 0,
         ss_startMinutes = 530, ss_endMinutes = 555, ss_sequenceNumber = 2\<rparr>,
        \<lparr>ss_id = ''session_3'', ss_taskId = i, ss_dayOfWeek = 0,
         ss_startMinutes = 555, ss_endMinutes = 580, ss_sequenceNumber = 3\<rparr>,
        \<lparr>ss_id = ''session_4'', ss_taskId = i, ss_dayOfWeek = 0,
         ss_startMinutes = 590, ss_endMinutes = 615, ss_sequenceNumber = 0\<rparr>],
      totalPlannedHours = 25 / 12, utilizationRate = Num (25 / 441)\<rparr>
   \<and> js_round (25 * (4 / 10)) = 10"
  by (simp add: planning_defs)

section \<open>Properties of the task priority\<close>










text \<open>
  The margin of the threshold is needed. Task \<open>a\<close> is due today, with urgency 0 and the
  estimate that the format has for \<open>250 / 60\<close> hours; task \<open>b\<close> is due in six days, with
  urgency 99 and the estimate that the format has for \<open>350 / 60\<close> hours. The exact sum
  stays below 10000, yet the rounded priority of \<open>b\<close> is the higher one and \<open>b\<close> is sorted
  first.
\<close>

theorem rounding_decides_order:
  "100 * (99 - 0) + 500 / (6 - 0)
     + 10 * (6567749456581973 / 1125899906842624 - 4691249611844267 / 1125899906842624)
     < (10000::real)
   \<and> calculateTaskPriority \<lparr>task_id = ''a'', task_name = ''a'',
        estimatedHours = 4691249611844267 / 1125899906842624, urgency = 0,
        deadlineDayIndex = Some 0\<rparr> 0 = 5520464631125333 / 549755813888
   \<and> calculateTaskPriority \<lparr>task_id = ''b'', task_name = ''b'',
        estimatedHours = 6567749456581973 / 1125899906842624, urgency = 99,
        deadlineDayIndex = Some 6\<rparr> 0 = 2760232315562667 / 274877906944
   \<and> sortTasksByPriority
        [\<lparr>task_id = ''a'', task_name = ''a'',
          estimatedHours = 4691249611844267 / 1125899906842624, urgency = 0,
          deadlineDayIndex = Some 0\<rparr>,
         \<lparr>task_id = ''b'', task_name = ''b'',
          estimatedHours = 6567749456581973 / 1125899906842624, urgency = 99,
          deadlineDayIndex = Some 6\<rparr>] 0
       = [\<lparr>task_id = ''b'', task_name = ''b'',
           estimatedHours = 6567749456581973 / 1125899906842624, urgency = 99,
           deadlineDayIndex = Some 6\<rparr>,
          \<lparr>task_id = ''a'', task_name = ''a'',
           estimatedHours = 4691249611844267 / 1125899906842624, urgency = 0,
           deadlineDayIndex = Some 0\<rparr>]"
  by (simp add: sortTasksByPriority_def calculateTaskPriority_def binary64_defs Let_def)

section \<open>Properties of the daily metrics\<close>

text \<open>
  C8, as the code has it. On a day without completed sessions the standard calculator
  reports the focus score 0, and the rolling-history calculator reports 0.8.
\<close>

theorem empty_day_focus_scores:
  assumes "filter (\<lambda>s. cs_dayOfWeek s = dayOfWeek) completedSessions = []"
  shows "focusScore (calculateDailyMetrics dayOfWeek scheduled completedSessions) = 0
       \<and> focusScore (calculateDailyMetricsForRolling dayOfWeek previous completedSessions) = 8 / 10"
  using assms
  by (simp add: calculateDailyMetrics_def calculateDailyMetricsForRolling_def
        focus_count_of_def Let_def)

text \<open>
  C8, as the code has it, on day 0 when the only completed session lies on day 1.
\<close>

theorem empty_day_focus_scores_witness:
  "filter (\<lambda>s. cs_dayOfWeek s = 0)
     [\<lparr>cs_taskId = ''t'', cs_durationMinutes = 30, cs_focusRating = 4, cs_dayOfWeek = 1,
       cs_timeOfDay = morning, cs_sequenceNumber = None\<rparr>] = []
   \<and> focusScore (calculateDailyMetrics 0 []
        [\<lparr>cs_taskId = ''t'', cs_durationMinutes = 30, cs_focusRating = 4, cs_dayOfWeek = 1,
          cs_timeOfDay = morning, cs_sequenceNumber = None\<rparr>]) = 0
   \<and> focusScore (calculateDailyMetricsForRolling 0 []
        [\<lparr>cs_taskId = ''t'', cs_durationMinutes = 30, cs_focusRating = 4, cs_dayOfWeek = 1,
          cs_timeOfDay = morning, cs_sequenceNumber = None\<rparr>]) = 8 / 10"
proof -
  have h: "filter (\<lambda>s. cs_dayOfWeek s = 0)
     [\<lparr>cs_taskId = ''t'', cs_durationMinutes = 30, cs_focusRating = 4, cs_dayOfWeek = 1,
       cs_timeOfDay = morning, cs_sequenceNumber = None\<rparr>] = []" by simp
  show ?thesis
    using h empty_day_focus_scores [OF h, of "[]" "[]"] by simp
qed

text \<open>
  C8 as stated fails for the rolling-history calculator: with no sessions at all its focus
  score for day 0 is 0.8, not 0.
\<close>

theorem rolling_empty_day_focus_counterexample:
  "focusScore (calculateDailyMetricsForRolling 0 [] []) = 8 / 10
   \<and> focusScore (calculateDailyMetricsForRolling 0 [] []) \<noteq> 0"
  by (simp add: calculateDailyMetricsForRolling_def focus_count_of_def Let_def)

lemma rolling_adherence64:
  "adherenceScore64 (calculateDailyMetricsForRolling64 d prev completed)
     = (let actual = actual_minutes64 d completed;
            planned0 = planned_minutes64 d prev;
            planned = (if planned0 = Num 0 \<and> js_greater actual 0 then actual else planned0)
        in if js_greater planned 0 then js_min (js_divide actual planned) (Num (3 / 2))
           else Num 1)"
  by (simp add: calculateDailyMetricsForRolling64_def Let_def)

text \<open>
  C10, as the code has it. When no completed session has a negative duration and the sum
  of the day's durations does not overflow, the adherence score of the rolling-history
  calculator is a finite number between 0 and 1.5. It is the quotient of the actual by the
  planned minutes, capped at 1.5, when the planned minutes of the day are positive, and 1
  otherwise; in particular it is exactly 1 on every day whose previously scheduled
  sessions sum to zero planned minutes, whether or not minutes were logged on that day.
\<close>

theorem rolling_adherence_score:
  assumes nonneg: "list_all (\<lambda>s. 0 \<le> cs_durationMinutes s) completedSessions"
    and finite: "actual_minutes64 dayOfWeek completedSessions \<noteq> PosInfinity"
  shows "(\<exists>r. adherenceScore64
               (calculateDailyMetricsForRolling64 dayOfWeek previous completedSessions) = Num r
             \<and> 0 \<le> r \<and> r \<le> 3 / 2)
       \<and> adherenceScore64
            (calculateDailyMetricsForRolling64 dayOfWeek previous completedSessions)
          = (if js_greater (planned_minutes64 dayOfWeek previous) 0
             then js_min (js_divide (actual_minutes64 dayOfWeek completedSessions)
                            (planned_minutes64 dayOfWeek previous)) (Num (3 / 2))
             else Num 1)
       \<and> (planned_minutes64 dayOfWeek previous = Num 0
            \<longrightarrow> adherenceScore64
                  (calculateDailyMetricsForRolling64 dayOfWeek previous completedSessions)
                = Num 1)"
proof -
  let ?score = "adherenceScore64
                  (calculateDailyMetricsForRolling64 dayOfWeek previous completedSessions)"
  let ?p = "planned_minutes64 dayOfWeek previous"
  from actual_minutes64_nonneg [OF nonneg, of dayOfWeek] finite
  obtain a where a: "actual_minutes64 dayOfWeek completedSessions = Num a" "0 \<le> a"
    by (cases "actual_minutes64 dayOfWeek completedSessions") simp_all
  show ?thesis
  proof (cases "?p = Num 0")
    case True
    have "?score = Num 1"
    proof (cases "0 < a")
      case True
      then have "js_divide (Num a) (Num a) = Num 1" by (simp add: to_js_one)
      with True \<open>?p = Num 0\<close> a show ?thesis by (simp add: rolling_adherence64 Let_def)
    next
      case False
      with \<open>?p = Num 0\<close> a show ?thesis by (simp add: rolling_adherence64 Let_def)
    qed
    with True show ?thesis by simp
  next
    case False
    then have s: "?score = (if js_greater ?p 0
                            then js_min (js_divide (Num a) ?p) (Num (3 / 2)) else Num 1)"
      using a by (simp add: rolling_adherence64 Let_def)
    have "\<exists>r. ?score = Num r \<and> 0 \<le> r \<and> r \<le> 3 / 2"
    proof (cases "js_greater ?p 0")
      case True
      from js_min_cap [OF js_divide_nonneg [OF a(2) True]] True s show ?thesis by simp
    next
      case False
      with s show ?thesis by simp
    qed
    with s False a show ?thesis by simp
  qed
qed

text \<open>
  C10, as the code has it, on day 0 with one completed session of 50 minutes. Against a
  previously scheduled session of 20 minutes the quotient of actual by planned minutes is
  2.5 and the adherence score is the cap 1.5; with nothing scheduled the planned minutes
  are zero and the adherence score is 1.
\<close>

theorem rolling_adherence_score_witness:
  "list_all (\<lambda>s. 0 \<le> cs_durationMinutes s)
     [\<lparr>cs_taskId = ''t'', cs_durationMinutes = 50, cs_focusRating = 4,
       cs_dayOfWeek = 0, cs_timeOfDay = morning, cs_sequenceNumber = None\<rparr>]
   \<and> actual_minutes64 0
        [\<lparr>cs_taskId = ''t'', cs_durationMinutes = 50, cs_focusRating = 4,
          cs_dayOfWeek = 0, cs_timeOfDay = morning, cs_sequenceNumber = None\<rparr>] = Num 50
   \<and> planned_minutes64 0
        [\<lparr>ss_id = ''session_0'', ss_taskId = ''t'', ss_dayOfWeek = 0,
          ss_startMinutes = 480, ss_endMinutes = 500, ss_sequenceNumber = 0\<rparr>] = Num 20
   \<and> js_divide (Num 50) (Num 20) = Num (5 / 2)
   \<and> adherenceScore64
        (calculateDailyMetricsForRolling64 0
           [\<lparr>ss_id = ''session_0'', ss_taskId = ''t'', ss_dayOfWeek = 0,
             ss_startMinutes = 480, ss_endMinutes = 500, ss_sequenceNumber = 0\<rparr>]
           [\<lparr>cs_taskId = ''t'', cs_durationMinutes = 50, cs_focusRating = 4,
             cs_dayOfWeek = 0, cs_timeOfDay = morning, cs_sequenceNumber = None\<rparr>])
       = Num (3 / 2)
   \<and> planned_minutes64 0 [] = Num 0
   \<and> adherenceScore64
        (calculateDailyMetricsForRolling64 0 []
           [\<lparr>cs_taskId = ''t'', cs_durationMinutes = 50, cs_focusRating = 4,
             cs_dayOfWeek = 0, cs_timeOfDay = morning, cs_sequenceNumber = None\<rparr>])
       = Num 1"
proof -
  let ?c = "[\<lparr>cs_taskId = ''t'', cs_durationMinutes = 50, cs_focusRating = 4,
              cs_dayOfWeek = 0, cs_timeOfDay = morning, cs_sequenceNumber = None\<rparr>]"
  let ?p = "[\<lparr>ss_id = ''session_0'', ss_taskId = ''t'', ss_dayOfWeek = 0,
              ss_startMinutes = 480, ss_endMinutes = 500, ss_sequenceNumber = 0\<rparr>]"
  have h1: "list_all (\<lambda>s. 0 \<le> cs_durationMinutes s) ?c" by simp
  have a: "actual_minutes64 0 ?c = Num 50"
    by (simp add: actual_minutes64_def binary64_defs Let_def)
  have p: "planned_minutes64 0 ?p = Num 20"
    by (simp add: planned_minutes64_def binary64_defs Let_def)
  have p0: "planned_minutes64 0 [] = Num 0"
    by (simp add: planned_minutes64_def)
  have q: "js_divide (Num 50) (Num 20) = Num (5 / 2)"
    by (simp add: binary64_defs Let_def)
  have h2: "actual_minutes64 0 ?c \<noteq> PosInfinity" by (simp add: a)
  from rolling_adherence_score [OF h1 h2, of ?p] rolling_adherence_score [OF h1 h2, of "[]"]
    a p p0 q h1
  show ?thesis by simp
qed

lemma overflow_adherence:
  assumes "round64 m = m" and "0 < m" and "m < overflow64" and "overflow64 \<le> m + m"
  shows "adherenceScore64
           (calculateDailyMetricsForRolling64 0 []
              [\<lparr>cs_taskId = ''t'', cs_durationMinutes = m, cs_focusRating = 5,
                cs_dayOfWeek = 0, cs_timeOfDay = morning, cs_sequenceNumber = None\<rparr>,
               \<lparr>cs_taskId = ''t'', cs_durationMinutes = m, cs_focusRating = 5,
                cs_dayOfWeek = 0, cs_timeOfDay = morning, cs_sequenceNumber = None\<rparr>]) = NaN"
proof -
  have 1: "to_js m = Num m" using assms overflow64_pos by (simp add: to_js_def)
  have 2: "to_js (2 * m) = PosInfinity" using assms by (simp add: to_js_def)
  show ?thesis
    by (simp add: rolling_adherence64 actual_minutes64_def planned_minutes64_def Let_def 1 2)
qed

text \<open>
  C10 as stated fails when the durations overflow: two completed sessions of \<open>2 ^ 1023\<close>
  minutes on a day with nothing scheduled sum to \<open>Infinity\<close>, the planned minutes are
  replaced by this sum, and the adherence score is \<open>Infinity / Infinity\<close>, which is NaN
  and not 1.
\<close>

theorem rolling_adherence_overflow_counterexample:
  "list_all (\<lambda>s. 0 \<le> cs_durationMinutes s)
     [\<lparr>cs_taskId = ''t'', cs_durationMinutes = 2 ^ 1023, cs_focusRating = 5,
       cs_dayOfWeek = 0, cs_timeOfDay = morning, cs_sequenceNumber = None\<rparr>,
      \<lparr>cs_taskId = ''t'', cs_durationMinutes = 2 ^ 1023, cs_focusRating = 5,
       cs_dayOfWeek = 0, cs_timeOfDay = morning, cs_sequenceNumber = None\<rparr>]
   \<and> planned_minutes64 0 [] = Num 0
   \<and> adherenceScore64
        (calculateDailyMetricsForRolling64 0 []
           [\<lparr>cs_taskId = ''t'', cs_durationMinutes = 2 ^ 1023, cs_focusRating = 5,
             cs_dayOfWeek = 0, cs_timeOfDay = morning, cs_sequenceNumber = None\<rparr>,
            \<lparr>cs_taskId = ''t'', cs_durationMinutes = 2 ^ 1023, cs_focusRating = 5,
             cs_dayOfWeek = 0, cs_timeOfDay = morning, cs_sequenceNumber = None\<rparr>]) = NaN
   \<and> adherenceScore64
        (calculateDailyMetricsForRolling64 0 []
           [\<lparr>cs_taskId = ''t'', cs_durationMinutes = 2 ^ 1023, cs_focusRating = 5,
             cs_dayOfWeek = 0, cs_timeOfDay = morning, cs_sequenceNumber = None\<rparr>,
            \<lparr>cs_taskId = ''t'', cs_durationMinutes = 2 ^ 1023, cs_focusRating = 5,
             cs_dayOfWeek = 0, cs_timeOfDay = morning, cs_sequenceNumber = None\<rparr>]) \<noteq> Num 1"
proof -
  have "round64 (2 ^ 1023) = 2 ^ 1023" by (rule round64_power2) simp
  moreover have "(0::real) < 2 ^ 1023" by simp
  moreover have "(2::real) ^ 1023 < overflow64" by (simp add: overflow64_def)
  moreover have "overflow64 \<le> 2 ^ 1023 + 2 ^ 1023" by (simp add: overflow64_def)
  ultimately have "adherenceScore64
           (calculateDailyMetricsForRolling64 0 []
              [\<lparr>cs_taskId = ''t'', cs_durationMinutes = 2 ^ 1023, cs_focusRating = 5,
                cs_dayOfWeek = 0, cs_timeOfDay = morning, cs_sequenceNumber = None\<rparr>,
               \<lparr>cs_taskId = ''t'', cs_durationMinutes = 2 ^ 1023, cs_focusRating = 5,
                cs_dayOfWeek = 0, cs_timeOfDay = morning, cs_sequenceNumber = None\<rparr>]) = NaN"
    by (rule overflow_adherence)
  then show ?thesis by (simp add: planned_minutes64_def)
qed


lemma adjustment_of_values:
  "adjustment_of st focus = 7 / 10 \<or> adjustment_of st focus = 9 / 10 \<or> adjustment_of st focus = 1"
  by (simp add: adjustment_of_def)

text \<open>
  Both calculators report one of the adjustment factors 0.7, 0.9 and 1.
\<close>

theorem adjustment_factor_values:
  "(adjustmentFactor (calculateDailyMetrics dayOfWeek scheduled completed) = 7 / 10
      \<or> adjustmentFactor (calculateDailyMetrics dayOfWeek scheduled completed) = 9 / 10
      \<or> adjustmentFactor (calculateDailyMetrics dayOfWeek scheduled completed) = 1)
   \<and> (adjustmentFactor (calculateDailyMetricsForRolling dayOfWeek scheduled completed) = 7 / 10
      \<or> adjustmentFactor (calculateDailyMetricsForRolling dayOfWeek scheduled completed) = 9 / 10
      \<or> adjustmentFactor (calculateDailyMetricsForRolling dayOfWeek scheduled completed) = 1)"
  unfolding calculateDailyMetrics_def calculateDailyMetricsForRolling_def Let_def
  by (simp only: DailyMetrics.select_convs adjustment_of_values)

section \<open>Properties of the adapter\<close>

text \<open>
  C9. Both entry points of the adapter hand the tasks, the preferences, the current day and
  the pomodoro length to the cold-start planner and nothing else: the proposal is the same
  for any two lists of completed sessions, and for any two event stores.
\<close>

theorem planning_ignores_history:
  "runStudyPlanning tasks completedSessions preferences currentDay pomodoroMinutes
     = runStudyPlanning tasks completedSessions' preferences currentDay pomodoroMinutes
   \<and> runStudyPlanningFromDB store userId tasks preferences currentDay pomodoroMinutes
     = runStudyPlanningFromDB store' userId tasks preferences currentDay pomodoroMinutes"
  by (simp add: runStudyPlanning_def runStudyPlanningFromDB_def)

end
